theory Spec2Isabelle
  imports Main "HOL-Library.Sublist"
begin

section \<open>Python strings\<close>

text \<open>
  A Python \<open>str\<close> is a sequence of code points. The model uses \<open>string\<close>, whose
  characters are read as the code points below 256; \<open>lower\<close>, \<open>isspace\<close> and
  \<open>strip\<close> follow Python on that range.
\<close>

definition lower_char :: "char \<Rightarrow> char" where
  "lower_char c =
     (let n = (of_char c :: nat)
      in if (65 \<le> n \<and> n \<le> 90) \<or> (192 \<le> n \<and> n \<le> 222 \<and> n \<noteq> 215)
         then char_of (n + 32) else c)"

definition lower :: "string \<Rightarrow> string" where
  "lower s = map lower_char s"

definition isspace :: "char \<Rightarrow> bool" where
  "isspace c =
     (let n = (of_char c :: nat)
      in (9 \<le> n \<and> n \<le> 13) \<or> (28 \<le> n \<and> n \<le> 32) \<or> n = 133 \<or> n = 160)"

definition strip :: "string \<Rightarrow> string" where
  "strip s = rev (dropWhile isspace (rev (dropWhile isspace s)))"

text \<open>\<open>sub in s\<close> on strings: \<open>sub\<close> occurs in \<open>s\<close> as a contiguous block.\<close>

fun str_contains :: "string \<Rightarrow> string \<Rightarrow> bool" where
  "str_contains sub [] = (sub = [])"
| "str_contains sub (c # cs) = (prefix sub (c # cs) \<or> str_contains sub cs)"

text \<open>\<open>sep.join(parts)\<close>.\<close>

fun str_join :: "string \<Rightarrow> string list \<Rightarrow> string" where
  "str_join sep [] = []"
| "str_join sep [x] = x"
| "str_join sep (x # y # ys) = x @ sep @ str_join sep (y # ys)"

text \<open>\<open>str(n)\<close> for an integer: its decimal digits, with a minus sign below zero.\<close>

definition digit_char :: "nat \<Rightarrow> char" where
  "digit_char d = ''0123456789'' ! d"

fun str_nat :: "nat \<Rightarrow> string" where
  "str_nat n = (if n < 10 then [digit_char n] else str_nat (n div 10) @ [digit_char (n mod 10)])"

declare str_nat.simps [simp del]

definition str_int :: "int \<Rightarrow> string" where
  "str_int i = (if i < 0 then CHR ''-'' # str_nat (nat (- i)) else str_nat (nat i))"

text \<open>
  Slices \<open>xs[i:j]\<close>, \<open>xs[i:]\<close> and \<open>xs[:j]\<close>: a negative index counts from the end,
  and every index is clamped to the sequence.
\<close>

definition norm_index :: "nat \<Rightarrow> int \<Rightarrow> nat" where
  "norm_index n i = (if i < 0 then nat (max 0 (int n + i)) else min n (nat i))"

definition slice :: "'a list \<Rightarrow> int \<Rightarrow> int \<Rightarrow> 'a list" where
  "slice xs i j =
     (let a = norm_index (length xs) i; b = norm_index (length xs) j
      in take (b - a) (drop a xs))"

definition slice_from :: "'a list \<Rightarrow> int \<Rightarrow> 'a list" where
  "slice_from xs i = drop (norm_index (length xs) i) xs"

definition slice_to :: "'a list \<Rightarrow> int \<Rightarrow> 'a list" where
  "slice_to xs j = take (norm_index (length xs) j) xs"

text \<open>\<open>p.rfind(c)\<close> for a one-character \<open>c\<close>: the highest index of \<open>c\<close>, or -1.\<close>

fun rfind_aux :: "string \<Rightarrow> char \<Rightarrow> int \<Rightarrow> int \<Rightarrow> int" where
  "rfind_aux [] c i best = best"
| "rfind_aux (x # xs) c i best = rfind_aux xs c (i + 1) (if x = c then i else best)"

definition rfind :: "string \<Rightarrow> char \<Rightarrow> int" where
  "rfind p c = rfind_aux p c 0 (- 1)"

section \<open>os.path on POSIX\<close>

text \<open>\<open>os.path.join(a, b)\<close> with the separator \<open>/\<close>.\<close>

definition path_join :: "string \<Rightarrow> string \<Rightarrow> string" where
  "path_join a b =
     (if prefix ''/'' b then b
      else if a = [] \<or> suffix ''/'' a then a @ b
      else a @ ''/'' @ b)"

text \<open>
  \<open>os.path.splitext(p)\<close>: the extension starts at the last dot of the last path
  component, unless only dots come before it in that component.
\<close>

function splitext_loop :: "string \<Rightarrow> int \<Rightarrow> int \<Rightarrow> string \<times> string" where
  "splitext_loop p filenameIndex dotIndex =
     (if filenameIndex < dotIndex then
        (if slice p filenameIndex (filenameIndex + 1) \<noteq> ''.''
         then (slice_to p dotIndex, slice_from p dotIndex)
         else splitext_loop p (filenameIndex + 1) dotIndex)
      else (p, []))"
  by pat_completeness auto
termination
  by (relation "measure (\<lambda>(p, filenameIndex, dotIndex). nat (dotIndex - filenameIndex))") auto

declare splitext_loop.simps [simp del]

definition splitext :: "string \<Rightarrow> string \<times> string" where
  "splitext p =
     (let sepIndex = rfind p (CHR ''/'');
          dotIndex = rfind p (CHR ''.'')
      in if dotIndex > sepIndex then splitext_loop p (sepIndex + 1) dotIndex
         else (p, []))"

section \<open>Values, errors and the outside world\<close>

text \<open>
  JSON values as \<open>json.load\<close> returns them and as a response carries them. An object
  is kept as its key-value pairs in insertion order. A float is carried through
  unchanged; what matters of it is whether it is finite (a mantissa and a binary
  exponent) or one of the three values \<open>json.load\<close> reads from \<open>NaN\<close>, \<open>Infinity\<close>
  and \<open>-Infinity\<close>, or from a literal too large for a float.
\<close>

datatype pyfloat = Finite int int | NaN | PosInfinity | NegInfinity

datatype json =
    JNull
  | JBool bool
  | JInt int
  | JFloat pyfloat
  | JStr string
  | JArr "json list"
  | JObj "(string \<times> json) list"

datatype py_error =
    FileNotFoundError string
  | FileExistsError string
  | IsADirectoryError string
  | PermissionError string
  | OSError string
  | UnicodeDecodeError
  | ValueError string
  | URLError string
  | JSONDecodeError
  | AttributeError
  | TypeError

text \<open>
  The file system is a flat map from path strings to nodes. Permissions and the
  directory hierarchy are not modelled.
\<close>

datatype node = File string | Dir

type_synonym filesystem = "string \<rightharpoonup> node"

record proc =
  returncode :: int
  stdout :: string
  stderr :: string

text \<open>
  What \<open>subprocess.run\<close> does with a command line: the program runs to completion and
  leaves a changed file system, or the call raises: \<open>FileNotFoundError\<close> when no
  executable of that name is found, \<open>PermissionError\<close> for a file that may not be
  executed, \<open>ValueError\<close> for a NUL in an argument, \<open>UnicodeDecodeError\<close> for output
  that is not text, after the program ran and left its files.
\<close>

datatype run_outcome =
    Completed proc filesystem
  | Raises py_error filesystem

text \<open>What the log keeps of an attempt: how the call ended, without the files.\<close>

datatype outcome = Exited proc | Not_found | Raised py_error

text \<open>
  The parts of the world the program calls and does not define: the network, the
  external binaries, the JSON parser, the names \<open>tempfile\<close> picks and the \<open>repr\<close> of a
  list of strings.
\<close>

record environment =
  urlopen :: "string \<Rightarrow> string option"
  subprocess_run :: "string list \<Rightarrow> filesystem \<Rightarrow> run_outcome"
  json_load :: "string \<Rightarrow> json option"
  tmp_stem :: string
  mkdtemp :: string
  repr_list :: "string list \<Rightarrow> string"

text \<open>
  The state a call changes: the files, and two logs kept for stating what happened:
  the URLs opened and the command lines handed to \<open>subprocess.run\<close>, each with the
  way the call ended.
\<close>

record world =
  files :: filesystem
  opened_urls :: "string list"
  attempts :: "(string list \<times> outcome) list"

definition exists :: "filesystem \<Rightarrow> string \<Rightarrow> bool" where
  "exists fs p = (fs p \<noteq> None)"

text \<open>\<open>os.makedirs(d, exist_ok=True)\<close>.\<close>

definition makedirs :: "string \<Rightarrow> world \<Rightarrow> py_error + world" where
  "makedirs d w =
     (if d = [] then Inl (FileNotFoundError d)
      else case files w d of
             Some (File c) \<Rightarrow> Inl (FileExistsError d)
           | _ \<Rightarrow> Inr (w\<lparr>files := (files w)(d \<mapsto> Dir)\<rparr>))"

text \<open>\<open>open(p).read()\<close>.\<close>

definition read_file :: "filesystem \<Rightarrow> string \<Rightarrow> py_error + string" where
  "read_file fs p =
     (case fs p of
        None \<Rightarrow> Inl (FileNotFoundError p)
      | Some Dir \<Rightarrow> Inl (IsADirectoryError p)
      | Some (File c) \<Rightarrow> Inr c)"

text \<open>\<open>try: os.unlink(p)  except: pass\<close>: a file is removed, anything else is left.\<close>

definition unlink_quiet :: "string \<Rightarrow> world \<Rightarrow> world" where
  "unlink_quiet p w =
     (case files w p of
        Some (File c) \<Rightarrow> w\<lparr>files := (files w)(p := None)\<rparr>
      | _ \<Rightarrow> w)"

section \<open>Configuration and model path resolution\<close>

record config =
  MODELS_DIR :: string
  MODEL_ARG :: string
  THREADS :: int
  BEAM_SIZE :: int
  WHISPER_BIN :: string

definition GGML_MAP :: "(string \<times> string) list" where
  "GGML_MAP =
     [(''tiny'', ''ggml-tiny.bin''),
      (''tiny.en'', ''ggml-tiny.en.bin''),
      (''base'', ''ggml-base.bin''),
      (''base.en'', ''ggml-base.en.bin''),
      (''small'', ''ggml-small.bin''),
      (''small.en'', ''ggml-small.en.bin''),
      (''medium'', ''ggml-medium.bin''),
      (''medium.en'', ''ggml-medium.en.bin''),
      (''large-v1'', ''ggml-large-v1.bin''),
      (''large-v2'', ''ggml-large-v2.bin''),
      (''large-v3'', ''ggml-large-v3.bin'')]"

definition model_url :: "string \<Rightarrow> string" where
  "model_url fname = ''https://huggingface.co/ggerganov/whisper.cpp/resolve/main/'' @ fname"

text \<open>
  \<open>resolve_model_path\<close>. The two \<open>print\<close> calls are left out. The download either
  delivers the whole body, which is then the content of the new file, or fails before
  the file is opened.
\<close>

definition resolve_model_path ::
  "environment \<Rightarrow> config \<Rightarrow> world \<Rightarrow> (py_error + string) \<times> world" where
  "resolve_model_path env cfg w =
     (if CHR ''/'' \<in> set (MODEL_ARG cfg) then
        (if \<not> exists (files w) (MODEL_ARG cfg)
         then (Inl (FileNotFoundError (''Model not found at '' @ MODEL_ARG cfg)), w)
         else (Inr (MODEL_ARG cfg), w))
      else
        (case map_of GGML_MAP (MODEL_ARG cfg) of
           None \<Rightarrow> (Inl (ValueError (''Unknown model alias: '' @ MODEL_ARG cfg)), w)
         | Some fname \<Rightarrow>
             if fname = [] then (Inl (ValueError (''Unknown model alias: '' @ MODEL_ARG cfg)), w)
             else
               (let path = path_join (MODELS_DIR cfg) fname
                in if \<not> exists (files w) path then
                     (case makedirs (MODELS_DIR cfg) w of
                        Inl e \<Rightarrow> (Inl e, w)
                      | Inr w1 \<Rightarrow>
                          (let url = model_url fname;
                               w2 = w1\<lparr>opened_urls := opened_urls w1 @ [url]\<rparr>
                           in case urlopen env url of
                                None \<Rightarrow> (Inl (URLError url), w2)
                              | Some body \<Rightarrow>
                                  (Inr path, w2\<lparr>files := (files w2)(path \<mapsto> File body)\<rparr>)))
                   else (Inr path, w))))"

section \<open>Running a candidate binary\<close>

text \<open>
  The command line of \<open>_run\<close>. \<open>if language:\<close> is false for \<open>None\<close> and for the empty
  string alike.
\<close>

definition build_cmd ::
  "config \<Rightarrow> string \<Rightarrow> string \<Rightarrow> string \<Rightarrow> string \<Rightarrow> string option \<Rightarrow> string \<Rightarrow> bool
     \<Rightarrow> string list" where
  "build_cmd cfg MODEL_PATH bin_name tmp_path out_prefix language task word_ts =
     (let cmd = [bin_name, ''-m'', MODEL_PATH, ''-f'', tmp_path,
                 ''-oj'', ''-osrt'', ''-of'', out_prefix,
                 ''-t'', str_int (THREADS cfg), ''-bs'', str_int (BEAM_SIZE cfg)];
          cmd = (case language of
                   None \<Rightarrow> cmd
                 | Some l \<Rightarrow> if l \<noteq> [] then cmd @ [''-l'', l] else cmd);
          cmd = (if task = ''translate'' then cmd @ [''-tr''] else cmd);
          cmd = (if word_ts then cmd @ [''-owts''] else cmd)
      in cmd)"

text \<open>
  \<open>_run\<close> returns the command, the completed process or \<open>None\<close>, and the caught
  \<open>FileNotFoundError\<close> or \<open>None\<close>. Any other exception of \<open>subprocess.run\<close> is not
  caught and leaves \<open>_run\<close>.
\<close>

type_synonym run_result = "string list \<times> proc option \<times> py_error option"

definition is_FileNotFoundError :: "py_error \<Rightarrow> bool" where
  "is_FileNotFoundError e = (case e of FileNotFoundError s \<Rightarrow> True | _ \<Rightarrow> False)"

definition run ::
  "environment \<Rightarrow> config \<Rightarrow> string \<Rightarrow> string \<Rightarrow> string \<Rightarrow> string \<Rightarrow> string option \<Rightarrow> string
     \<Rightarrow> bool \<Rightarrow> world \<Rightarrow> (py_error + run_result) \<times> world" where
  "run env cfg MODEL_PATH bin_name tmp_path out_prefix language task word_ts w =
     (let cmd = build_cmd cfg MODEL_PATH bin_name tmp_path out_prefix language task word_ts
      in case subprocess_run env cmd (files w) of
           Completed p fs \<Rightarrow>
             (Inr (cmd, Some p, None),
              w\<lparr>files := fs, attempts := attempts w @ [(cmd, Exited p)]\<rparr>)
         | Raises e fs \<Rightarrow>
             if is_FileNotFoundError e
             then (Inr (cmd, None, Some e),
                   w\<lparr>files := fs, attempts := attempts w @ [(cmd, Not_found)]\<rparr>)
             else (Inl e,
                   w\<lparr>files := fs, attempts := attempts w @ [(cmd, Raised e)]\<rparr>))"

section \<open>The transcribe endpoint\<close>

record upload =
  filename :: "string option"
  content :: string

text \<open>
  A response is a status code and a JSON content. \<open>JSONResponse(...)\<close> renders its
  content when it is constructed, with \<open>allow_nan=False\<close>: a float that is not finite
  anywhere in the content raises \<open>ValueError\<close> (the wording of the message is the
  library's and no statement below depends on it).
\<close>

datatype response = Response int json

fun json_compliant :: "json \<Rightarrow> bool" where
  "json_compliant (JFloat f) = (case f of Finite m e \<Rightarrow> True | _ \<Rightarrow> False)"
| "json_compliant (JArr xs) = (\<forall>x \<in> set xs. json_compliant x)"
| "json_compliant (JObj kvs) = (\<forall>kv \<in> set kvs. json_compliant (snd kv))"
| "json_compliant v = True"

definition JSONResponse :: "int \<Rightarrow> json \<Rightarrow> py_error + response" where
  "JSONResponse status_code body =
     (if json_compliant body then Inr (Response status_code body)
      else Inl (ValueError ''Out of range float values are not JSON compliant''))"

type_synonym attempt = "string \<times> string list \<times> proc option \<times> py_error option"

text \<open>
  The test of line 105: a non-zero exit whose output mentions a deprecation.
\<close>

definition deprecated_exit :: "proc \<Rightarrow> bool" where
  "deprecated_exit p =
     (returncode p \<noteq> 0 \<and> str_contains ''deprecated'' (lower (stdout p) @ lower (stderr p)))"

text \<open>
  The loop over the candidates, with \<open>r\<close> the call of \<open>_run\<close> on a candidate (all its
  other arguments are the same in every round). \<open>continue\<close> is the recursive call,
  \<open>break\<close> returns, and an exception that leaves \<open>_run\<close> leaves the loop. Reading
  \<open>proc.returncode\<close> when \<open>proc\<close> is \<open>None\<close> raises.
\<close>

fun try_candidates ::
  "(string \<Rightarrow> world \<Rightarrow> (py_error + run_result) \<times> world) \<Rightarrow> string list \<Rightarrow> attempt option \<Rightarrow> world
     \<Rightarrow> (py_error + attempt option) \<times> world" where
  "try_candidates r [] last_tried w = (Inr last_tried, w)"
| "try_candidates r (candidate # rest) last_tried w =
     (case r candidate w of
        (Inl e, w') \<Rightarrow> (Inl e, w')
      | (Inr (cmd, proc, err), w') \<Rightarrow>
          (let last_tried' = Some (candidate, cmd, proc, err)
           in case err of
                Some e \<Rightarrow> try_candidates r rest last_tried' w'
              | None \<Rightarrow>
                  (case proc of
                     None \<Rightarrow> (Inl AttributeError, w')
                   | Some p \<Rightarrow>
                       if deprecated_exit p then try_candidates r rest last_tried' w'
                       else (Inr last_tried', w'))))"

text \<open>Helpers for the values the response is built from.\<close>

text \<open>\<open>d.get(k, default)\<close>; only a dict has \<open>get\<close>.\<close>

definition dict_get :: "json \<Rightarrow> string \<Rightarrow> json \<Rightarrow> py_error + json" where
  "dict_get d k dflt =
     (case d of
        JObj kvs \<Rightarrow> Inr (case map_of kvs k of None \<Rightarrow> dflt | Some v \<Rightarrow> v)
      | _ \<Rightarrow> Inl AttributeError)"

text \<open>\<open>v.strip()\<close>; only a string has \<open>strip\<close>.\<close>

definition py_strip :: "json \<Rightarrow> py_error + json" where
  "py_strip v = (case v of JStr s \<Rightarrow> Inr (JStr (strip s)) | _ \<Rightarrow> Inl AttributeError)"

text \<open>
  \<open>for s in v\<close>: a list gives its elements, a string its characters, a dict its keys;
  nothing else can be iterated.
\<close>

definition py_iter :: "json \<Rightarrow> py_error + json list" where
  "py_iter v =
     (case v of
        JArr xs \<Rightarrow> Inr xs
      | JStr s \<Rightarrow> Inr (map (\<lambda>c. JStr [c]) s)
      | JObj kvs \<Rightarrow> Inr (map (\<lambda>kv. JStr (fst kv)) kvs)
      | _ \<Rightarrow> Inl TypeError)"

text \<open>A list comprehension whose element expression may raise.\<close>

fun comprehension :: "('a \<Rightarrow> py_error + 'b) \<Rightarrow> 'a list \<Rightarrow> py_error + 'b list" where
  "comprehension f [] = Inr []"
| "comprehension f (x # xs) =
     (case f x of
        Inl e \<Rightarrow> Inl e
      | Inr y \<Rightarrow> (case comprehension f xs of Inl e \<Rightarrow> Inl e | Inr ys \<Rightarrow> Inr (y # ys)))"

text \<open>The element expression of line 163: one segment of the response.\<close>

definition segment_entry :: "json \<Rightarrow> py_error + json" where
  "segment_entry s =
     (case dict_get s ''start'' JNull of
        Inl e \<Rightarrow> Inl e
      | Inr start \<Rightarrow>
          (case dict_get s ''end'' JNull of
             Inl e \<Rightarrow> Inl e
           | Inr end' \<Rightarrow>
               (case dict_get s ''text'' (JStr []) of
                  Inl e \<Rightarrow> Inl e
                | Inr t \<Rightarrow>
                    (case py_strip t of
                       Inl e \<Rightarrow> Inl e
                     | Inr text \<Rightarrow>
                         Inr (JObj [(''start'', start), (''end'', end'), (''text'', text)])))))"

text \<open>\<open>json.load\<close> on the file at a path.\<close>

definition load_json_file :: "environment \<Rightarrow> filesystem \<Rightarrow> string \<Rightarrow> py_error + json" where
  "load_json_file env fs p =
     (case read_file fs p of
        Inl e \<Rightarrow> Inl e
      | Inr txt \<Rightarrow> (case json_load env txt of None \<Rightarrow> Inl JSONDecodeError | Some v \<Rightarrow> Inr v))"

text \<open>The dict of lines 158 to 169, its values evaluated in the order written.\<close>

definition success_content :: "json \<Rightarrow> json \<Rightarrow> json \<Rightarrow> string \<Rightarrow> py_error + json" where
  "success_content data srt wts candidate =
     (case dict_get data ''language'' JNull of
        Inl e \<Rightarrow> Inl e
      | Inr language \<Rightarrow>
          (case dict_get data ''duration'' JNull of
             Inl e \<Rightarrow> Inl e
           | Inr duration \<Rightarrow>
               (case dict_get data ''text'' (JStr []) of
                  Inl e \<Rightarrow> Inl e
                | Inr t \<Rightarrow>
                    (case py_strip t of
                       Inl e \<Rightarrow> Inl e
                     | Inr text \<Rightarrow>
                         (case dict_get data ''segments'' (JArr []) of
                            Inl e \<Rightarrow> Inl e
                          | Inr segs \<Rightarrow>
                              (case py_iter segs of
                                 Inl e \<Rightarrow> Inl e
                               | Inr ss \<Rightarrow>
                                   (case comprehension segment_entry ss of
                                      Inl e \<Rightarrow> Inl e
                                    | Inr segments \<Rightarrow>
                                        Inr (JObj [(''language'', language),
                                                   (''duration'', duration),
                                                   (''text'', text),
                                                   (''segments'', JArr segments),
                                                   (''srt'', srt),
                                                   (''word_timestamps'', wts),
                                                   (''used_bin'', JStr candidate)]))))))))"

text \<open>Lines 134 to 169: reading the output files of a run that exited with 0.\<close>

definition read_outputs ::
  "environment \<Rightarrow> string \<Rightarrow> bool \<Rightarrow> string \<Rightarrow> proc \<Rightarrow> filesystem \<Rightarrow> py_error + response" where
  "read_outputs env out_prefix word_ts candidate p fs =
     (let json_path = out_prefix @ ''.json'';
          srt_path = out_prefix @ ''.srt''
      in if \<not> exists fs json_path then
           JSONResponse 500
                  (JObj [(''error'', JStr ''missing JSON output''),
                         (''stdout_tail'', JStr (slice_from (stdout p) (- 2000))),
                         (''stderr_tail'', JStr (slice_from (stderr p) (- 2000)))])
         else
           (case load_json_file env fs json_path of
              Inl e \<Rightarrow> Inl e
            | Inr data \<Rightarrow>
                (case (if exists fs srt_path
                       then (case read_file fs srt_path of
                               Inl e \<Rightarrow> Inl e | Inr txt \<Rightarrow> Inr (JStr txt))
                       else Inr JNull) of
                   Inl e \<Rightarrow> Inl e
                 | Inr srt \<Rightarrow>
                     (case (if word_ts then
                              (let wts_path = out_prefix @ ''.wts.json''
                               in if exists fs wts_path then load_json_file env fs wts_path
                                  else Inr JNull)
                            else Inr JNull) of
                        Inl e \<Rightarrow> Inl e
                      | Inr wts \<Rightarrow>
                          (case success_content data srt wts candidate of
                             Inl e \<Rightarrow> Inl e
                           | Inr c \<Rightarrow> JSONResponse 200 c)))))"

text \<open>
  Lines 114 to 132, then the output files: the response for the last candidate tried.
  Unpacking \<open>last\<close> when it is still \<open>None\<close> raises.
\<close>

definition respond ::
  "environment \<Rightarrow> string list \<Rightarrow> string \<Rightarrow> bool \<Rightarrow> attempt option \<Rightarrow> filesystem
     \<Rightarrow> py_error + response" where
  "respond env candidates out_prefix word_ts last_tried fs =
     (case last_tried of
        None \<Rightarrow> Inl TypeError
      | Some (candidate, cmd, proc, err) \<Rightarrow>
          if err \<noteq> None then
            JSONResponse 500
                   (JObj [(''error'',
                           JStr (''whisper binary not found (tried '' @ repr_list env candidates
                                 @ '')''))])
          else
            (case proc of
               None \<Rightarrow> JSONResponse 500 (JObj [(''error'', JStr ''unknown subprocess state'')])
             | Some p \<Rightarrow>
                 if returncode p \<noteq> 0 then
                   JSONResponse 500
                          (JObj [(''error'', JStr ''whisper.cpp failed''),
                                 (''exit_code'', JInt (returncode p)),
                                 (''stderr_tail'', JStr (slice_from (stderr p) (- 2000))),
                                 (''stdout_tail'', JStr (slice_from (stdout p) (- 2000))),
                                 (''cmd'', JStr (str_join '' '' cmd)),
                                 (''tried_bins'', JArr (map JStr candidates)),
                                 (''used_bin'', JStr candidate)])
                 else read_outputs env out_prefix word_ts candidate p fs))"

text \<open>Line 88: the suffix of the temporary file.\<close>

definition upload_suffix :: "upload \<Rightarrow> string" where
  "upload_suffix file =
     (let name = (case filename file of None \<Rightarrow> [] | Some n \<Rightarrow> if n \<noteq> [] then n else []);
          ext = snd (splitext name)
      in if ext \<noteq> [] then ext else ''.wav'')"

text \<open>
  \<open>NamedTemporaryFile(delete=False, suffix=suffix)\<close> makes a file whose name is a
  stem of the system's choice followed by the suffix.
\<close>

definition tmp_path_of :: "environment \<Rightarrow> upload \<Rightarrow> string" where
  "tmp_path_of env file = tmp_stem env @ upload_suffix file"

definition out_prefix_of :: "environment \<Rightarrow> string" where
  "out_prefix_of env = path_join (mkdtemp env) ''out''"

definition candidates_of :: "config \<Rightarrow> string list" where
  "candidates_of cfg = [WHISPER_BIN cfg, ''whisper-cli'', ''whisper'']"

text \<open>Lines 89 to 94: the upload is stored and the output directory made.\<close>

definition stage_upload :: "environment \<Rightarrow> upload \<Rightarrow> world \<Rightarrow> world" where
  "stage_upload env file w =
     (let w1 = w\<lparr>files := (files w)(tmp_path_of env file \<mapsto> File (content file))\<rparr>
      in w1\<lparr>files := (files w1)(mkdtemp env \<mapsto> Dir)\<rparr>)"

text \<open>Lines 96 to 108: the loop over the three candidates, from \<open>last = None\<close>.\<close>

definition run_candidates ::
  "environment \<Rightarrow> config \<Rightarrow> string \<Rightarrow> upload \<Rightarrow> string option \<Rightarrow> string \<Rightarrow> bool \<Rightarrow> world
     \<Rightarrow> (py_error + attempt option) \<times> world" where
  "run_candidates env cfg MODEL_PATH file language task word_ts w =
     try_candidates
       (\<lambda>candidate. run env cfg MODEL_PATH candidate (tmp_path_of env file) (out_prefix_of env)
                       language task word_ts)
       (candidates_of cfg) None w"

definition transcribe ::
  "environment \<Rightarrow> config \<Rightarrow> string \<Rightarrow> upload \<Rightarrow> string option \<Rightarrow> string \<Rightarrow> bool \<Rightarrow> world
     \<Rightarrow> (py_error + response) \<times> world" where
  "transcribe env cfg MODEL_PATH file language task word_ts w =
     (case run_candidates env cfg MODEL_PATH file language task word_ts (stage_upload env file w) of
        (Inl e, w3) \<Rightarrow> (Inl e, w3)
      | (Inr last_tried, w3) \<Rightarrow>
          (let w4 = unlink_quiet (tmp_path_of env file) w3
           in (respond env (candidates_of cfg) (out_prefix_of env) word_ts last_tried (files w4),
               w4)))"

section \<open>The health endpoint and the routes\<close>

definition healthz :: "config \<Rightarrow> string \<Rightarrow> json" where
  "healthz cfg MODEL_PATH =
     JObj [(''ok'', JBool True),
           (''model'', JStr (MODEL_ARG cfg)),
           (''model_path'', JStr MODEL_PATH),
           (''threads'', JInt (THREADS cfg)),
           (''beam_size'', JInt (BEAM_SIZE cfg)),
           (''bin'', JStr (WHISPER_BIN cfg))]"

text \<open>
  A route is the set of methods it answers, its path and its endpoint function. The
  object \<open>FastAPI()\<close> comes with four routes of the framework's own, each answering GET
  and HEAD: the OpenAPI document, the two pages of the interactive documentation and
  the ReDoc page. The decorator \<open>@api.get(path)\<close> or \<open>@api.post(path)\<close> appends a route
  for that one method and the decorated function.
\<close>

datatype http_method = GET | HEAD | POST | PUT | DELETE | OPTIONS | PATCH | TRACE | CONNECT

datatype endpoint =
    Builtin string
  | Dict_endpoint "config \<Rightarrow> string \<Rightarrow> json"
  | Upload_endpoint
      "environment \<Rightarrow> config \<Rightarrow> string \<Rightarrow> upload \<Rightarrow> string option \<Rightarrow> string \<Rightarrow> bool \<Rightarrow> world
         \<Rightarrow> (py_error + response) \<times> world"

type_synonym route = "http_method set \<times> string \<times> endpoint"

definition FastAPI :: "route list" where
  "FastAPI =
     [({GET, HEAD}, ''/openapi.json'', Builtin ''openapi''),
      ({GET, HEAD}, ''/docs'', Builtin ''swagger_ui_html''),
      ({GET, HEAD}, ''/docs/oauth2-redirect'', Builtin ''swagger_ui_redirect''),
      ({GET, HEAD}, ''/redoc'', Builtin ''redoc_html'')]"

definition add_api_route :: "http_method \<Rightarrow> string \<Rightarrow> endpoint \<Rightarrow> route list \<Rightarrow> route list" where
  "add_api_route m path f app = app @ [({m}, path, f)]"

definition api :: "route list" where
  "api =
     add_api_route POST ''/transcribe'' (Upload_endpoint transcribe)
       (add_api_route GET ''/healthz'' (Dict_endpoint healthz) FastAPI)"

section \<open>Notions used to state the properties\<close>

text \<open>A language counts as supplied when the form field holds a non-empty string.\<close>

definition language_supplied :: "string option \<Rightarrow> bool" where
  "language_supplied language = (case language of None \<Rightarrow> False | Some l \<Rightarrow> l \<noteq> [])"

text \<open>
  How a call of \<open>subprocess.run\<close> ended, as the log keeps it, and the file system it
  left.
\<close>

definition outcome_of :: "run_outcome \<Rightarrow> outcome" where
  "outcome_of out =
     (case out of
        Completed p fs \<Rightarrow> Exited p
      | Raises e fs \<Rightarrow> if is_FileNotFoundError e then Not_found else Raised e)"

definition fs_after :: "run_outcome \<Rightarrow> filesystem" where
  "fs_after out = (case out of Completed p fs \<Rightarrow> fs | Raises e fs \<Rightarrow> fs)"

text \<open>
  After an attempt the loop goes on to the next candidate when the binary was not
  found, or when it exited non-zero with a deprecation notice.
\<close>

definition goes_on :: "outcome \<Rightarrow> bool" where
  "goes_on oc =
     (case oc of Not_found \<Rightarrow> True | Exited p \<Rightarrow> deprecated_exit p | Raised e \<Rightarrow> False)"

text \<open>
  A step is a command line, the file system it was run on and what \<open>subprocess.run\<close>
  did. Steps are run in turn from a file system when each is what the environment does
  with its command on its file system, the first file system is the given one, and
  each later one is what the step before left. The log keeps of a step its command and
  how the call ended.
\<close>

type_synonym step = "string list \<times> filesystem \<times> run_outcome"

fun run_in_turn :: "environment \<Rightarrow> filesystem \<Rightarrow> step list \<Rightarrow> bool" where
  "run_in_turn env fs [] = True"
| "run_in_turn env fs ((cmd, fs_in, out) # rest) =
     (fs_in = fs \<and> out = subprocess_run env cmd fs_in \<and> run_in_turn env (fs_after out) rest)"

definition logged :: "step \<Rightarrow> string list \<times> outcome" where
  "logged s = (fst s, outcome_of (snd (snd s)))"

text \<open>The command line a request runs for a candidate.\<close>

definition request_cmd ::
  "environment \<Rightarrow> config \<Rightarrow> string \<Rightarrow> upload \<Rightarrow> string option \<Rightarrow> string \<Rightarrow> bool \<Rightarrow> string
     \<Rightarrow> string list" where
  "request_cmd env cfg MODEL_PATH file language task word_ts candidate =
     build_cmd cfg MODEL_PATH candidate (tmp_path_of env file) (out_prefix_of env)
       language task word_ts"

text \<open>A file system without the file at a path; a directory there stays.\<close>

definition without_file :: "string \<Rightarrow> filesystem \<Rightarrow> filesystem" where
  "without_file p fs = (case fs p of Some (File c) \<Rightarrow> fs(p := None) | _ \<Rightarrow> fs)"

text \<open>
  A response with status 500 whose content has an \<open>error\<close> field, and a response with
  status 200.
\<close>

definition has_error_field :: "json \<Rightarrow> bool" where
  "has_error_field c = (case c of JObj kvs \<Rightarrow> map_of kvs ''error'' \<noteq> None | _ \<Rightarrow> False)"

definition error_response :: "py_error + response \<Rightarrow> bool" where
  "error_response r =
     (case r of Inr (Response st c) \<Rightarrow> st = 500 \<and> has_error_field c | Inl e \<Rightarrow> False)"


text \<open>
  The transcription in words. A field of a parsed JSON object, with a default. The
  entry of a segment: its start and end (null when absent) and its text (empty when
  absent) stripped; the segment has to be an object and its text a string. The entries
  of the segments value: one per element of a list; nothing else has entries, but for
  an empty string and an empty object, which have none to give. The subtitles: the
  text of the \<open>.srt\<close> file if there is one, else null. The word timestamps: the parsed
  \<open>.wts.json\<close> file if they were requested and there is one, else null.
\<close>

definition field_or :: "(string \<times> json) list \<Rightarrow> string \<Rightarrow> json \<Rightarrow> json" where
  "field_or kvs k dflt = (case map_of kvs k of None \<Rightarrow> dflt | Some v \<Rightarrow> v)"

definition segment_entry_of :: "json \<Rightarrow> json option" where
  "segment_entry_of s =
     (case s of
        JObj kvs \<Rightarrow>
          (case field_or kvs ''text'' (JStr []) of
             JStr t \<Rightarrow>
               Some (JObj [(''start'', field_or kvs ''start'' JNull),
                           (''end'', field_or kvs ''end'' JNull),
                           (''text'', JStr (strip t))])
           | _ \<Rightarrow> None)
      | _ \<Rightarrow> None)"

definition segment_entries :: "json \<Rightarrow> json list option" where
  "segment_entries v =
     (case v of
        JArr xs \<Rightarrow> those (map segment_entry_of xs)
      | JStr s \<Rightarrow> if s = [] then Some [] else None
      | JObj kvs \<Rightarrow> if kvs = [] then Some [] else None
      | _ \<Rightarrow> None)"

definition subtitles_of :: "filesystem \<Rightarrow> string \<Rightarrow> json option" where
  "subtitles_of fs out_prefix =
     (case fs (out_prefix @ ''.srt'') of
        None \<Rightarrow> Some JNull
      | Some (File txt) \<Rightarrow> Some (JStr txt)
      | Some Dir \<Rightarrow> None)"

definition word_timestamps_of :: "environment \<Rightarrow> bool \<Rightarrow> filesystem \<Rightarrow> string \<Rightarrow> json option" where
  "word_timestamps_of env word_ts fs out_prefix =
     (if word_ts then
        (case fs (out_prefix @ ''.wts.json'') of
           None \<Rightarrow> Some JNull
         | Some (File txt) \<Rightarrow> json_load env txt
         | Some Dir \<Rightarrow> None)
      else Some JNull)"

text \<open>
  The content of the 200 response for the output files of a run, in words: the JSON
  file holds an object whose text is a string; language and duration are taken from
  it, null when absent; there is nothing but finite numbers in what is sent. \<open>None\<close>
  when the files do not give a transcription.
\<close>

definition transcription_of ::
  "environment \<Rightarrow> bool \<Rightarrow> filesystem \<Rightarrow> string \<Rightarrow> string \<Rightarrow> json option" where
  "transcription_of env word_ts fs out_prefix used_bin =
     (case fs (out_prefix @ ''.json'') of
        Some (File txt) \<Rightarrow>
          (case json_load env txt of
             Some (JObj kvs) \<Rightarrow>
               (case (field_or kvs ''text'' (JStr []),
                      segment_entries (field_or kvs ''segments'' (JArr [])),
                      subtitles_of fs out_prefix,
                      word_timestamps_of env word_ts fs out_prefix) of
                  (JStr t, Some segments, Some srt, Some wts) \<Rightarrow>
                    (let c = JObj [(''language'', field_or kvs ''language'' JNull),
                                   (''duration'', field_or kvs ''duration'' JNull),
                                   (''text'', JStr (strip t)),
                                   (''segments'', JArr segments),
                                   (''srt'', srt),
                                   (''word_timestamps'', wts),
                                   (''used_bin'', JStr used_bin)]
                     in if json_compliant c then Some c else None)
                | _ \<Rightarrow> None)
           | _ \<Rightarrow> None)
      | _ \<Rightarrow> None)"

text \<open>
  The last component of a path, and the extension of a file name in words: the part
  from the last dot of the last component on, where dots the component starts with do
  not count; empty when there is no such dot.
\<close>

definition basename_of :: "string \<Rightarrow> string" where
  "basename_of p = rev (takeWhile (\<lambda>c. c \<noteq> CHR ''/'') (rev p))"

definition extension_of :: "string \<Rightarrow> string" where
  "extension_of p =
     (let b = dropWhile (\<lambda>c. c = CHR ''.'') (basename_of p)
      in if CHR ''.'' \<in> set b
         then CHR ''.'' # rev (takeWhile (\<lambda>c. c \<noteq> CHR ''.'') (rev b))
         else [])"

text \<open>
  The endpoint functions registered on an application for a method and a path, in the
  order of registration.
\<close>

definition registered :: "route list \<Rightarrow> http_method \<Rightarrow> string \<Rightarrow> endpoint list" where
  "registered app m path = map (\<lambda>r. snd (snd r)) (filter (\<lambda>r. m \<in> fst r \<and> fst (snd r) = path) app)"

section \<open>Example requests and environments\<close>

text \<open>
  Concrete inputs at which the theorems below are instantiated: a configuration, an
  upload, a parser that knows four documents, and binaries that behave in the ways the
  endpoint distinguishes.
\<close>

definition example_cfg :: config where
  "example_cfg =
     \<lparr>MODELS_DIR = ''/models'', MODEL_ARG = ''base.en'', THREADS = 4, BEAM_SIZE = 5,
      WHISPER_BIN = ''main''\<rparr>"

definition example_upload :: upload where
  "example_upload = \<lparr>filename = Some ''talk.mp3'', content = ''audio''\<rparr>"

definition empty_world :: world where
  "empty_world = \<lparr>files = Map.empty, opened_urls = [], attempts = []\<rparr>"

definition example_document :: json where
  "example_document =
     JObj [(''language'', JStr ''en''),
           (''text'', JStr '' hello there ''),
           (''segments'',
            JArr [JObj [(''start'', JInt 0), (''end'', JInt 2), (''text'', JStr '' hello'')],
                  JObj [(''start'', JInt 2), (''end'', JInt 3), (''text'', JStr ''there '')]])]"

definition example_json_load :: "string \<Rightarrow> json option" where
  "example_json_load s =
     (if s = ''doc'' then Some example_document
      else if s = ''[]'' then Some (JArr [])
      else if s = ''{}'' then Some (JObj [])
      else if s = ''nan'' then Some (JObj [(''duration'', JFloat NaN)])
      else None)"

definition example_env :: "(string list \<Rightarrow> filesystem \<Rightarrow> run_outcome) \<Rightarrow> environment" where
  "example_env binaries =
     \<lparr>urlopen = (\<lambda>url. if url = model_url ''ggml-base.en.bin'' then Some ''weights'' else None),
      subprocess_run = binaries,
      json_load = example_json_load,
      tmp_stem = ''/tmp/tmpa1'',
      mkdtemp = ''/tmp/tmpb2'',
      repr_list = (\<lambda>xs. ''['' @ str_join '', '' xs @ '']'')\<rparr>"

definition quiet :: "int \<Rightarrow> proc" where
  "quiet rc = \<lparr>returncode = rc, stdout = [], stderr = []\<rparr>"

text \<open>Every binary is found and writes the JSON and subtitle files.\<close>

definition good_binary :: "string list \<Rightarrow> filesystem \<Rightarrow> run_outcome" where
  "good_binary cmd fs =
     Completed (quiet 0)
       (fs(''/tmp/tmpb2/out.json'' \<mapsto> File ''doc'', ''/tmp/tmpb2/out.srt'' \<mapsto> File ''1''))"

text \<open>Every binary is found, exits with 1 and says nothing.\<close>

definition failing_binary :: "string list \<Rightarrow> filesystem \<Rightarrow> run_outcome" where
  "failing_binary cmd fs = Completed (quiet 1) fs"

text \<open>No binary is found.\<close>

definition no_binary :: "string list \<Rightarrow> filesystem \<Rightarrow> run_outcome" where
  "no_binary cmd fs = Raises (FileNotFoundError (hd cmd)) fs"

text \<open>Every binary is there, but none may be executed.\<close>

definition unexecutable_binary :: "string list \<Rightarrow> filesystem \<Rightarrow> run_outcome" where
  "unexecutable_binary cmd fs = Raises (PermissionError (hd cmd)) fs"






text \<open>
  The old binary \<open>main\<close> prints a deprecation notice and exits with 1; \<open>whisper-cli\<close>
  works.
\<close>

definition old_and_new_binary :: "string list \<Rightarrow> filesystem \<Rightarrow> run_outcome" where
  "old_and_new_binary cmd fs =
     (if hd cmd = ''main''
      then Completed \<lparr>returncode = 1, stdout = ''DEPRE'', stderr = ''CATED''\<rparr> fs
      else good_binary cmd fs)"

text \<open>Like the good binary, and it also writes a word-timestamp file.\<close>

definition timestamping_binary :: "string list \<Rightarrow> filesystem \<Rightarrow> run_outcome" where
  "timestamping_binary cmd fs =
     Completed (quiet 0)
       (fs(''/tmp/tmpb2/out.json'' \<mapsto> File ''doc'', ''/tmp/tmpb2/out.wts.json'' \<mapsto> File ''[]''))"

text \<open>The empty world after the weights of \<open>base.en\<close> were downloaded.\<close>

definition downloaded_world :: world where
  "downloaded_world =
     \<lparr>files = [''/models'' \<mapsto> Dir, ''/models/ggml-base.en.bin'' \<mapsto> File ''weights''],
      opened_urls = [model_url ''ggml-base.en.bin''], attempts = []\<rparr>"

section \<open>The loop and the request, replayed\<close>

lemma run_cases:
  assumes "run env cfg mp c tmp out language task word_ts w = (r, w')"
  defines "cmd \<equiv> build_cmd cfg mp c tmp out language task word_ts"
  defines "oc \<equiv> subprocess_run env cmd (files w)"
  shows "attempts w' = attempts w @ [(cmd, outcome_of oc)]"
    and "files w' = fs_after oc" and "opened_urls w' = opened_urls w"
    and "\<And>e. outcome_of oc = Raised e \<Longrightarrow> r = Inl e"
    and "\<And>p. outcome_of oc = Exited p \<Longrightarrow> r = Inr (cmd, Some p, None)"
    and "outcome_of oc = Not_found \<Longrightarrow> \<exists>e. r = Inr (cmd, None, Some e)"
  using assms
  by (auto simp: run_def Let_def outcome_of_def fs_after_def split: run_outcome.splits if_splits)

text \<open>The loop, replayed as steps run in turn.\<close>

lemma try_candidates_trace:
  assumes "try_candidates (\<lambda>c. run env cfg mp c tmp out language task word_ts) cs last_tried w = (res, w')"
  shows "\<exists>tr. attempts w' = attempts w @ map logged tr \<and> length tr \<le> length cs \<and>
           (cs \<noteq> [] \<longrightarrow> tr \<noteq> []) \<and> opened_urls w' = opened_urls w \<and>
           map fst tr = map (\<lambda>c. build_cmd cfg mp c tmp out language task word_ts) (take (length tr) cs) \<and>
           run_in_turn env (files w) tr \<and>
           (\<forall>s \<in> set (butlast tr). goes_on (snd (logged s))) \<and>
           (length tr < length cs \<longrightarrow> \<not> goes_on (snd (logged (last tr)))) \<and>
           files w' = (if tr = [] then files w else fs_after (snd (snd (last tr)))) \<and>
           (tr = [] \<longrightarrow> res = Inr last_tried) \<and>
           (tr \<noteq> [] \<longrightarrow>
              (case snd (logged (last tr)) of
                 Raised e \<Rightarrow> res = Inl e
               | Exited p \<Rightarrow> res = Inr (Some (cs ! (length tr - 1), fst (last tr), Some p, None))
               | Not_found \<Rightarrow> (\<exists>e. res = Inr (Some (cs ! (length tr - 1), fst (last tr), None, Some e)))))"
  using assms
proof (induction cs arbitrary: last_tried w)
  case Nil
  then show ?case by (intro exI [of _ "[]"]) simp
next
  case (Cons c cs)
  let ?R = "\<lambda>c. run env cfg mp c tmp out language task word_ts"
  let ?cmd = "build_cmd cfg mp c tmp out language task word_ts"
  let ?oc = "subprocess_run env ?cmd (files w)"
  let ?s = "(?cmd, files w, ?oc)"
  obtain r w1 where r: "?R c w = (r, w1)" by (cases "?R c w") auto
  note rc = run_cases [OF r]
  have ls: "logged ?s = (?cmd, outcome_of ?oc)" by (simp add: logged_def)
  show ?case
  proof (cases "goes_on (outcome_of ?oc)")
    case False
    have res: "w' = w1 \<and>
      (case outcome_of ?oc of
         Raised e \<Rightarrow> res = Inl e
       | Exited p \<Rightarrow> res = Inr (Some (c, ?cmd, Some p, None))
       | Not_found \<Rightarrow> (\<exists>e. res = Inr (Some (c, ?cmd, None, Some e))))"
    proof (cases "outcome_of ?oc")
      case (Exited p)
      with False have "\<not> deprecated_exit p" by (simp add: goes_on_def)
      with Cons.prems r rc(5) [OF Exited] Exited show ?thesis by simp
    next
      case Not_found
      with False show ?thesis by (simp add: goes_on_def)
    next
      case (Raised e)
      with Cons.prems r rc(4) [OF Raised] show ?thesis by simp
    qed
    with rc(1-3) False ls show ?thesis
      by (intro exI [of _ "[?s]"]) (auto split: outcome.splits)
  next
    case True
    then obtain lt where cont: "try_candidates ?R cs (Some lt) w1 = (res, w')"
      and lt: "(case outcome_of ?oc of
         Raised e \<Rightarrow> False
       | Exited p \<Rightarrow> lt = (c, ?cmd, Some p, None)
       | Not_found \<Rightarrow> (\<exists>e. lt = (c, ?cmd, None, Some e)))"
    proof (cases "outcome_of ?oc")
      case (Exited p)
      with True have "deprecated_exit p" by (simp add: goes_on_def)
      with Cons.prems r rc(5) [OF Exited] Exited that show ?thesis by simp
    next
      case Not_found
      from rc(6) [OF this] obtain e where "r = Inr (?cmd, None, Some e)" by blast
      with Cons.prems r Not_found that show ?thesis by simp
    next
      case (Raised e)
      with True show ?thesis by (simp add: goes_on_def)
    qed
    from Cons.IH [OF cont] obtain tr where n:
      "attempts w' = attempts w1 @ map logged tr" "length tr \<le> length cs"
      "cs \<noteq> [] \<longrightarrow> tr \<noteq> []" "opened_urls w' = opened_urls w1"
      "map fst tr = map (\<lambda>c. build_cmd cfg mp c tmp out language task word_ts) (take (length tr) cs)"
      "run_in_turn env (files w1) tr"
      "\<forall>s \<in> set (butlast tr). goes_on (snd (logged s))"
      "length tr < length cs \<longrightarrow> \<not> goes_on (snd (logged (last tr)))"
      "files w' = (if tr = [] then files w1 else fs_after (snd (snd (last tr))))"
      "tr = [] \<longrightarrow> res = Inr (Some lt)"
      "tr \<noteq> [] \<longrightarrow>
              (case snd (logged (last tr)) of
                 Raised e \<Rightarrow> res = Inl e
               | Exited p \<Rightarrow> res = Inr (Some (cs ! (length tr - 1), fst (last tr), Some p, None))
               | Not_found \<Rightarrow> (\<exists>e. res = Inr (Some (cs ! (length tr - 1), fst (last tr), None, Some e))))"
      by blast
    show ?thesis
    proof (intro exI [of _ "?s # tr"] conjI)
      show "attempts w' = attempts w @ map logged (?s # tr)"
        using n(1) rc(1) ls by simp
      show "length (?s # tr) \<le> length (c # cs)" using n(2) by simp
      show "c # cs \<noteq> [] \<longrightarrow> ?s # tr \<noteq> []" by simp
      show "opened_urls w' = opened_urls w" using n(4) rc(3) by simp
      show "map fst (?s # tr) = map (\<lambda>c. build_cmd cfg mp c tmp out language task word_ts)
              (take (length (?s # tr)) (c # cs))"
        using n(5) by simp
      show "run_in_turn env (files w) (?s # tr)" using n(6) rc(2) by simp
      show "\<forall>s \<in> set (butlast (?s # tr)). goes_on (snd (logged s))"
        using n(7) True ls by (auto dest: in_set_butlastD)
      show "length (?s # tr) < length (c # cs) \<longrightarrow> \<not> goes_on (snd (logged (last (?s # tr))))"
        using n(8) n(3) by auto
      show "files w' = (if ?s # tr = [] then files w else fs_after (snd (snd (last (?s # tr)))))"
        using n(9) rc(2) by simp
      show "?s # tr = [] \<longrightarrow> res = Inr last_tried" by simp
      show "?s # tr \<noteq> [] \<longrightarrow>
              (case snd (logged (last (?s # tr))) of
                 Raised e \<Rightarrow> res = Inl e
               | Exited p \<Rightarrow> res = Inr (Some ((c # cs) ! (length (?s # tr) - 1), fst (last (?s # tr)), Some p, None))
               | Not_found \<Rightarrow> (\<exists>e. res = Inr (Some ((c # cs) ! (length (?s # tr) - 1), fst (last (?s # tr)), None, Some e))))"
      proof (cases "tr = []")
        case True
        with n(10) lt ls show ?thesis by (auto split: outcome.splits)
      next
        case False
        then have i: "(c # cs) ! (length (?s # tr) - 1) = cs ! (length tr - 1)"
          by (cases tr) simp_all
        from False have l: "last (?s # tr) = last tr" by simp
        from n(11) False show ?thesis unfolding i l by blast
      qed
    qed
  qed
qed


lemma unlink_quiet_props:
  "attempts (unlink_quiet p w) = attempts w" "opened_urls (unlink_quiet p w) = opened_urls w"
  "files (unlink_quiet p w) = without_file p (files w)"
  by (auto simp: unlink_quiet_def without_file_def split: option.splits node.splits)


lemma stage_upload_props:
  "attempts (stage_upload env file w) = attempts w" "opened_urls (stage_upload env file w) = opened_urls w"
  by (simp_all add: stage_upload_def Let_def)

lemma hd_build_cmd: "hd (build_cmd cfg mp c tmp out language task word_ts) = c"
  by (simp add: build_cmd_def Let_def split: option.splits)

lemma last_of_map_take:
  assumes "map f tr = map g (take (length tr) cs)" "tr \<noteq> []" "length tr \<le> length cs"
  shows "f (last tr) = g (cs ! (length tr - 1))"
proof -
  from assms(2) have n: "length tr - 1 < length tr" by simp
  have "f (last tr) = map f tr ! (length tr - 1)"
    using assms(2) n by (simp add: last_conv_nth)
  also have "\<dots> = map g (take (length tr) cs) ! (length tr - 1)" by (simp only: assms(1))
  also have "\<dots> = g (cs ! (length tr - 1))"
    using n assms(3) by simp
  finally show ?thesis .
qed

text \<open>A request, replayed: the steps of its loop and what the response is built from.\<close>

lemma transcribe_trace:
  assumes "transcribe env cfg mp file language task word_ts w = (res, w')"
  shows "\<exists>tr. attempts w' = attempts w @ map logged tr \<and> tr \<noteq> [] \<and> length tr \<le> 3 \<and>
           opened_urls w' = opened_urls w \<and>
           map fst tr = map (request_cmd env cfg mp file language task word_ts)
                          (take (length tr) (candidates_of cfg)) \<and>
           run_in_turn env (files (stage_upload env file w)) tr \<and>
           (\<forall>s \<in> set (butlast tr). goes_on (snd (logged s))) \<and>
           (length tr < 3 \<longrightarrow> \<not> goes_on (snd (logged (last tr)))) \<and>
           hd (fst (last tr)) = candidates_of cfg ! (length tr - 1) \<and>
           (case snd (logged (last tr)) of
              Raised e \<Rightarrow> res = Inl e \<and> files w' = fs_after (snd (snd (last tr)))
            | Not_found \<Rightarrow>
                files w' = without_file (tmp_path_of env file) (fs_after (snd (snd (last tr)))) \<and>
                res = JSONResponse 500
                        (JObj [(''error'',
                                JStr (''whisper binary not found (tried ''
                                      @ repr_list env (candidates_of cfg) @ '')''))])
            | Exited p \<Rightarrow>
                files w' = without_file (tmp_path_of env file) (fs_after (snd (snd (last tr)))) \<and>
                res = (if returncode p \<noteq> 0 then
                         JSONResponse 500
                           (JObj [(''error'', JStr ''whisper.cpp failed''),
                                  (''exit_code'', JInt (returncode p)),
                                  (''stderr_tail'', JStr (slice_from (stderr p) (- 2000))),
                                  (''stdout_tail'', JStr (slice_from (stdout p) (- 2000))),
                                  (''cmd'', JStr (str_join '' '' (fst (last tr)))),
                                  (''tried_bins'', JArr (map JStr (candidates_of cfg))),
                                  (''used_bin'', JStr (hd (fst (last tr))))])
                       else read_outputs env (out_prefix_of env) word_ts (hd (fst (last tr))) p
                              (files w')))"
proof -
  let ?w0 = "stage_upload env file w"
  obtain r w3 where rc: "run_candidates env cfg mp file language task word_ts ?w0 = (r, w3)"
    by (cases "run_candidates env cfg mp file language task word_ts ?w0") auto
  have len: "length (candidates_of cfg) = 3" by (simp add: candidates_of_def)
  from try_candidates_trace [OF rc [unfolded run_candidates_def]]
  obtain tr where n: "attempts w3 = attempts ?w0 @ map logged tr"
      "length tr \<le> length (candidates_of cfg)" "candidates_of cfg \<noteq> [] \<longrightarrow> tr \<noteq> []"
      "opened_urls w3 = opened_urls ?w0"
      "map fst tr = map (\<lambda>c. build_cmd cfg mp c (tmp_path_of env file) (out_prefix_of env) language task word_ts)
                      (take (length tr) (candidates_of cfg))"
      "run_in_turn env (files ?w0) tr"
      "\<forall>s \<in> set (butlast tr). goes_on (snd (logged s))"
      "length tr < length (candidates_of cfg) \<longrightarrow> \<not> goes_on (snd (logged (last tr)))"
      "files w3 = (if tr = [] then files ?w0 else fs_after (snd (snd (last tr))))"
      "tr \<noteq> [] \<longrightarrow>
              (case snd (logged (last tr)) of
                 Raised e \<Rightarrow> r = Inl e
               | Exited p \<Rightarrow> r = Inr (Some (candidates_of cfg ! (length tr - 1), fst (last tr), Some p, None))
               | Not_found \<Rightarrow> (\<exists>e. r = Inr (Some (candidates_of cfg ! (length tr - 1), fst (last tr), None, Some e))))"
    by blast
  from n(3) have ne: "tr \<noteq> []" by (simp add: candidates_of_def)
  have req: "request_cmd env cfg mp file language task word_ts =
      (\<lambda>c. build_cmd cfg mp c (tmp_path_of env file) (out_prefix_of env) language task word_ts)"
    by (rule ext) (simp add: request_cmd_def)
  have "fst (last tr) = build_cmd cfg mp (candidates_of cfg ! (length tr - 1))
          (tmp_path_of env file) (out_prefix_of env) language task word_ts"
    using n(5) ne n(2) by (rule last_of_map_take)
  then have hd: "hd (fst (last tr)) = candidates_of cfg ! (length tr - 1)"
    by (simp add: hd_build_cmd)
  have fin: "files w3 = fs_after (snd (snd (last tr)))" using n(9) ne by simp
  have out: "(case snd (logged (last tr)) of
              Raised e \<Rightarrow> res = Inl e \<and> files w' = fs_after (snd (snd (last tr)))
            | Not_found \<Rightarrow>
                files w' = without_file (tmp_path_of env file) (fs_after (snd (snd (last tr)))) \<and>
                res = JSONResponse 500
                        (JObj [(''error'',
                                JStr (''whisper binary not found (tried ''
                                      @ repr_list env (candidates_of cfg) @ '')''))])
            | Exited p \<Rightarrow>
                files w' = without_file (tmp_path_of env file) (fs_after (snd (snd (last tr)))) \<and>
                res = (if returncode p \<noteq> 0 then
                         JSONResponse 500
                           (JObj [(''error'', JStr ''whisper.cpp failed''),
                                  (''exit_code'', JInt (returncode p)),
                                  (''stderr_tail'', JStr (slice_from (stderr p) (- 2000))),
                                  (''stdout_tail'', JStr (slice_from (stdout p) (- 2000))),
                                  (''cmd'', JStr (str_join '' '' (fst (last tr)))),
                                  (''tried_bins'', JArr (map JStr (candidates_of cfg))),
                                  (''used_bin'', JStr (hd (fst (last tr))))])
                       else read_outputs env (out_prefix_of env) word_ts (hd (fst (last tr))) p
                              (files w')))"
  proof (cases "snd (logged (last tr))")
    case (Raised e)
    with n(10) ne have "r = Inl e" by simp
    with assms rc have "res = Inl e" "w' = w3" by (auto simp: transcribe_def)
    with Raised fin show ?thesis by simp
  next
    case Not_found
    with n(10) ne obtain e where "r = Inr (Some (candidates_of cfg ! (length tr - 1), fst (last tr), None, Some e))"
      by auto
    with assms rc have "w' = unlink_quiet (tmp_path_of env file) w3"
      and "res = respond env (candidates_of cfg) (out_prefix_of env) word_ts
                   (Some (candidates_of cfg ! (length tr - 1), fst (last tr), None, Some e)) (files w')"
      by (auto simp: transcribe_def Let_def)
    with Not_found fin show ?thesis
      by (simp add: unlink_quiet_props respond_def)
  next
    case (Exited p)
    with n(10) ne have "r = Inr (Some (candidates_of cfg ! (length tr - 1), fst (last tr), Some p, None))"
      by simp
    with assms rc have "w' = unlink_quiet (tmp_path_of env file) w3"
      and "res = respond env (candidates_of cfg) (out_prefix_of env) word_ts
                   (Some (candidates_of cfg ! (length tr - 1), fst (last tr), Some p, None)) (files w')"
      by (auto simp: transcribe_def Let_def)
    with Exited fin hd show ?thesis
      by (simp add: unlink_quiet_props respond_def)
  qed
  have "attempts w' = attempts w3 \<and> opened_urls w' = opened_urls w3"
    using assms rc by (auto simp: transcribe_def Let_def unlink_quiet_props split: sum.splits)
  with n(1,2,4,5,6,7,8) ne len hd out show ?thesis
    by (intro exI [of _ tr]) (simp add: stage_upload_props req)
qed

section \<open>The examples evaluated\<close>

lemma splitext_talk: "splitext ''talk.mp3'' = (''talk'', ''.mp3'')"
  by (simp add: splitext_def rfind_def splitext_loop.simps slice_def slice_to_def slice_from_def norm_index_def)

lemma example_paths:
  "tmp_path_of (example_env b) example_upload = ''/tmp/tmpa1.mp3''"
  "out_prefix_of (example_env b) = ''/tmp/tmpb2/out''"
  "candidates_of example_cfg = [''main'', ''whisper-cli'', ''whisper'']"
  by (simp_all add: tmp_path_of_def out_prefix_of_def candidates_of_def upload_suffix_def
      example_env_def example_upload_def example_cfg_def splitext_talk path_join_def suffix_def)

lemma example_numbers: "str_int 4 = ''4''" "str_int 5 = ''5''"
  by (simp_all add: str_int_def str_nat.simps digit_char_def)

lemma example_cmd:
  "build_cmd example_cfg mp c tmp out None ''transcribe'' False =
     [c, ''-m'', mp, ''-f'', tmp, ''-oj'', ''-osrt'', ''-of'', out, ''-t'', ''4'', ''-bs'', ''5'']"
  "build_cmd example_cfg mp c tmp out (Some ''en'') ''translate'' True =
     [c, ''-m'', mp, ''-f'', tmp, ''-oj'', ''-osrt'', ''-of'', out, ''-t'', ''4'', ''-bs'', ''5'',
      ''-l'', ''en'', ''-tr'', ''-owts'']"
  "build_cmd example_cfg mp c tmp out None ''transcribe'' True =
     [c, ''-m'', mp, ''-f'', tmp, ''-oj'', ''-osrt'', ''-of'', out, ''-t'', ''4'', ''-bs'', ''5'',
      ''-owts'']"
  by (simp_all add: build_cmd_def example_numbers) (simp_all add: example_cfg_def example_numbers)

lemma example_env_sel:
  "subprocess_run (example_env b) = b" "json_load (example_env b) = example_json_load"
  "repr_list (example_env b) xs = ''['' @ str_join '', '' xs @ '']''"
  by (simp_all add: example_env_def)

lemma example_stage:
  "stage_upload (example_env b) example_upload empty_world =
     \<lparr>files = [''/tmp/tmpa1.mp3'' \<mapsto> File ''audio'', ''/tmp/tmpb2'' \<mapsto> Dir], opened_urls = [], attempts = []\<rparr>"
  by (simp add: stage_upload_def example_paths) (simp add: example_env_def example_upload_def empty_world_def)

lemma empty_world_sel:
  "attempts empty_world = []" "opened_urls empty_world = []" "files empty_world = Map.empty"
  by (simp_all add: empty_world_def)

lemma quiet_sel: "returncode (quiet rc) = rc" "stdout (quiet rc) = []" "stderr (quiet rc) = []"
  by (simp_all add: quiet_def)

lemma example_notices:
  "deprecated_exit (quiet rc) = False"
  "deprecated_exit \<lparr>returncode = 1, stdout = ''DEPRE'', stderr = ''CATED''\<rparr> = True"
  "deprecated_exit \<lparr>returncode = 1, stdout = [], stderr = ''main is Deprecated''\<rparr> = True"
proof -
  show "deprecated_exit (quiet rc) = False"
    by (simp add: deprecated_exit_def quiet_def lower_def)
  show "deprecated_exit \<lparr>returncode = 1, stdout = ''DEPRE'', stderr = ''CATED''\<rparr> = True"
    by code_simp
  show "deprecated_exit \<lparr>returncode = 1, stdout = [], stderr = ''main is Deprecated''\<rparr> = True"
    by code_simp
qed

lemma example_strips:
  "strip '' hello there '' = ''hello there''" "strip '' hello'' = ''hello''"
  "strip ''there '' = ''there''" "strip [] = []"
  by code_simp+

lemma example_content:
  "success_content example_document srt wts c =
     Inr (JObj
          [(''language'', JStr ''en''), (''duration'', JNull),
           (''text'', JStr ''hello there''),
           (''segments'',
            JArr [JObj [(''start'', JInt 0), (''end'', JInt 2), (''text'', JStr ''hello'')],
                  JObj [(''start'', JInt 2), (''end'', JInt 3), (''text'', JStr ''there'')]]),
           (''srt'', srt), (''word_timestamps'', wts),
           (''used_bin'', JStr c)])"
  by (simp add: success_content_def example_document_def dict_get_def py_strip_def py_iter_def
      segment_entry_def example_strips)

lemmas example_simps = transcribe_def run_candidates_def example_paths example_stage example_cmd
  example_env_sel example_notices run_def unlink_quiet_def respond_def read_outputs_def
  exists_def load_json_file_def read_file_def example_json_load_def quiet_sel Let_def
  JSONResponse_def is_FileNotFoundError_def

lemma good_run:
  "transcribe (example_env good_binary) example_cfg ''/m.bin'' example_upload None ''transcribe'' False empty_world =
    (Inr (Response 200 (JObj
          [(''language'', JStr ''en''), (''duration'', JNull),
           (''text'', JStr ''hello there''),
           (''segments'',
            JArr [JObj [(''start'', JInt 0), (''end'', JInt 2), (''text'', JStr ''hello'')],
                  JObj [(''start'', JInt 2), (''end'', JInt 3), (''text'', JStr ''there'')]]),
           (''srt'', JStr ''1''), (''word_timestamps'', JNull),
           (''used_bin'', JStr ''main'')])),
     \<lparr>files = [''/tmp/tmpb2'' \<mapsto> Dir, ''/tmp/tmpb2/out.json'' \<mapsto> File ''doc'', ''/tmp/tmpb2/out.srt'' \<mapsto> File ''1''],
      opened_urls = [],
      attempts = [([''main'', ''-m'', ''/m.bin'', ''-f'', ''/tmp/tmpa1.mp3'', ''-oj'', ''-osrt'', ''-of'', ''/tmp/tmpb2/out'', ''-t'', ''4'', ''-bs'', ''5''], Exited (quiet 0))]\<rparr>)"
  by (simp add: example_simps good_binary_def fun_upd_twist example_content)

lemma failing_run:
  "transcribe (example_env failing_binary) example_cfg ''/m.bin'' example_upload None ''transcribe'' False empty_world =
    (Inr (Response 500
       (JObj
         [(''error'', JStr ''whisper.cpp failed''), (''exit_code'', JInt 1),
          (''stderr_tail'', JStr []), (''stdout_tail'', JStr []),
          (''cmd'', JStr ''main -m /m.bin -f /tmp/tmpa1.mp3 -oj -osrt -of /tmp/tmpb2/out -t 4 -bs 5''),
          (''tried_bins'', JArr [JStr ''main'', JStr ''whisper-cli'', JStr ''whisper'']),
          (''used_bin'', JStr ''main'')])),
     \<lparr>files = [''/tmp/tmpb2'' \<mapsto> Dir], opened_urls = [],
      attempts = [([''main'', ''-m'', ''/m.bin'', ''-f'', ''/tmp/tmpa1.mp3'', ''-oj'', ''-osrt'', ''-of'', ''/tmp/tmpb2/out'', ''-t'', ''4'', ''-bs'', ''5''], Exited (quiet 1))]\<rparr>)"
  by (simp add: example_simps failing_binary_def slice_from_def norm_index_def fun_upd_twist)





lemma unexecutable_run:
  "transcribe (example_env unexecutable_binary) example_cfg ''/m.bin'' example_upload None ''transcribe'' False empty_world =
    (Inl (PermissionError ''main''),
     \<lparr>files = [''/tmp/tmpa1.mp3'' \<mapsto> File ''audio'', ''/tmp/tmpb2'' \<mapsto> Dir], opened_urls = [],
      attempts = [([''main'', ''-m'', ''/m.bin'', ''-f'', ''/tmp/tmpa1.mp3'', ''-oj'', ''-osrt'', ''-of'', ''/tmp/tmpb2/out'', ''-t'', ''4'', ''-bs'', ''5''], Raised (PermissionError ''main''))]\<rparr>)"
  by (simp add: example_simps unexecutable_binary_def)


lemma old_and_new_run:
  "transcribe (example_env old_and_new_binary) example_cfg ''/m.bin'' example_upload (Some ''en'') ''translate'' True empty_world =
    (Inr (Response 200 (JObj
          [(''language'', JStr ''en''), (''duration'', JNull),
           (''text'', JStr ''hello there''),
           (''segments'',
            JArr [JObj [(''start'', JInt 0), (''end'', JInt 2), (''text'', JStr ''hello'')],
                  JObj [(''start'', JInt 2), (''end'', JInt 3), (''text'', JStr ''there'')]]),
           (''srt'', JStr ''1''), (''word_timestamps'', JNull),
           (''used_bin'', JStr ''whisper-cli'')])),
     \<lparr>files = [''/tmp/tmpb2'' \<mapsto> Dir, ''/tmp/tmpb2/out.json'' \<mapsto> File ''doc'', ''/tmp/tmpb2/out.srt'' \<mapsto> File ''1''],
      opened_urls = [],
      attempts = [([''main'', ''-m'', ''/m.bin'', ''-f'', ''/tmp/tmpa1.mp3'', ''-oj'', ''-osrt'', ''-of'', ''/tmp/tmpb2/out'', ''-t'', ''4'', ''-bs'', ''5'', ''-l'', ''en'', ''-tr'', ''-owts''], Exited \<lparr>returncode = 1, stdout = ''DEPRE'', stderr = ''CATED''\<rparr>),
                  ([''whisper-cli'', ''-m'', ''/m.bin'', ''-f'', ''/tmp/tmpa1.mp3'', ''-oj'', ''-osrt'', ''-of'', ''/tmp/tmpb2/out'', ''-t'', ''4'', ''-bs'', ''5'', ''-l'', ''en'', ''-tr'', ''-owts''], Exited (quiet 0))]\<rparr>)"
  by (simp add: example_simps old_and_new_binary_def good_binary_def fun_upd_twist example_content)

lemma timestamping_run:
  "transcribe (example_env timestamping_binary) example_cfg ''/m.bin'' example_upload None ''transcribe'' True empty_world =
    (Inr (Response 200 (JObj
          [(''language'', JStr ''en''), (''duration'', JNull),
           (''text'', JStr ''hello there''),
           (''segments'',
            JArr [JObj [(''start'', JInt 0), (''end'', JInt 2), (''text'', JStr ''hello'')],
                  JObj [(''start'', JInt 2), (''end'', JInt 3), (''text'', JStr ''there'')]]),
           (''srt'', JNull), (''word_timestamps'', JArr []),
           (''used_bin'', JStr ''main'')])),
     \<lparr>files = [''/tmp/tmpb2'' \<mapsto> Dir, ''/tmp/tmpb2/out.json'' \<mapsto> File ''doc'', ''/tmp/tmpb2/out.wts.json'' \<mapsto> File ''[]''],
      opened_urls = [],
      attempts = [([''main'', ''-m'', ''/m.bin'', ''-f'', ''/tmp/tmpa1.mp3'', ''-oj'', ''-osrt'', ''-of'', ''/tmp/tmpb2/out'', ''-t'', ''4'', ''-bs'', ''5'', ''-owts''], Exited (quiet 0))]\<rparr>)"
  by (simp add: example_simps timestamping_binary_def fun_upd_twist example_content)


lemma unrequested_run:
  "transcribe (example_env timestamping_binary) example_cfg ''/m.bin'' example_upload None ''transcribe'' False empty_world =
    (Inr (Response 200 (JObj
          [(''language'', JStr ''en''), (''duration'', JNull),
           (''text'', JStr ''hello there''),
           (''segments'',
            JArr [JObj [(''start'', JInt 0), (''end'', JInt 2), (''text'', JStr ''hello'')],
                  JObj [(''start'', JInt 2), (''end'', JInt 3), (''text'', JStr ''there'')]]),
           (''srt'', JNull), (''word_timestamps'', JNull),
           (''used_bin'', JStr ''main'')])),
     \<lparr>files = [''/tmp/tmpb2'' \<mapsto> Dir, ''/tmp/tmpb2/out.json'' \<mapsto> File ''doc'', ''/tmp/tmpb2/out.wts.json'' \<mapsto> File ''[]''],
      opened_urls = [],
      attempts = [([''main'', ''-m'', ''/m.bin'', ''-f'', ''/tmp/tmpa1.mp3'', ''-oj'', ''-osrt'', ''-of'', ''/tmp/tmpb2/out'', ''-t'', ''4'', ''-bs'', ''5''], Exited (quiet 0))]\<rparr>)"
  by (simp add: example_simps timestamping_binary_def fun_upd_twist example_content)

section \<open>The command, the notice and the response, in words\<close>

lemma build_cmd_shape:
  "build_cmd cfg MODEL_PATH bin_name tmp_path out_prefix language task word_ts =
     [bin_name, ''-m'', MODEL_PATH, ''-f'', tmp_path, ''-oj'', ''-osrt'', ''-of'', out_prefix,
      ''-t'', str_int (THREADS cfg), ''-bs'', str_int (BEAM_SIZE cfg)]
     @ (if language_supplied language then [''-l'', the language] else [])
     @ (if task = ''translate'' then [''-tr''] else [])
     @ (if word_ts then [''-owts''] else [])"
  by (simp add: build_cmd_def language_supplied_def split: option.splits)

lemma str_contains_sublist: "str_contains sub s \<longleftrightarrow> sublist sub s"
  by (induction s) (auto simp: sublist_Cons_right)

lemma lower_append: "lower (a @ b) = lower a @ lower b"
  by (simp add: lower_def)

lemma deprecated_exit_iff:
  "deprecated_exit p \<longleftrightarrow> returncode p \<noteq> 0 \<and> sublist ''deprecated'' (lower (stdout p @ stderr p))"
  by (simp add: deprecated_exit_def str_contains_sublist lower_append)

lemma goes_on_iff:
  "goes_on oc \<longleftrightarrow>
     oc = Not_found \<or>
     (\<exists>p. oc = Exited p \<and> returncode p \<noteq> 0 \<and>
          sublist ''deprecated'' (lower (stdout p @ stderr p)))"
  by (cases oc) (auto simp: goes_on_def deprecated_exit_iff)

lemma JSONResponse_Inr:
  "JSONResponse st c = Inr r \<longleftrightarrow> json_compliant c \<and> r = Response st c"
  by (auto simp: JSONResponse_def)

lemma segment_entry_eq:
  "segment_entry s = (case segment_entry_of s of Some e \<Rightarrow> Inr e | None \<Rightarrow> Inl AttributeError)"
  by (cases s)
    (auto simp: segment_entry_def segment_entry_of_def dict_get_def field_or_def py_strip_def
      split: option.splits json.splits)

lemma comprehension_eq:
  "comprehension segment_entry xs =
     (case those (map segment_entry_of xs) of Some es \<Rightarrow> Inr es | None \<Rightarrow> Inl AttributeError)"
  by (induction xs) (auto simp: segment_entry_eq split: option.splits)

lemma segments_eq:
  "(\<exists>ss. py_iter v = Inr ss \<and> comprehension segment_entry ss = Inr es) \<longleftrightarrow>
     segment_entries v = Some es"
proof (cases v)
  case (JArr xs)
  then show ?thesis
    by (auto simp: py_iter_def segment_entries_def comprehension_eq split: option.splits)
next
  case (JStr s)
  then show ?thesis
    by (cases s)
      (auto simp: py_iter_def segment_entries_def segment_entry_eq segment_entry_of_def)
next
  case (JObj kvs)
  then show ?thesis
    by (cases kvs)
      (auto simp: py_iter_def segment_entries_def segment_entry_eq segment_entry_of_def)
qed (auto simp: py_iter_def segment_entries_def)

lemma success_content_Inr:
  "success_content data srt wts cand = Inr c \<longleftrightarrow>
     (\<exists>kvs t segments.
        data = JObj kvs \<and> field_or kvs ''text'' (JStr []) = JStr t \<and>
        segment_entries (field_or kvs ''segments'' (JArr [])) = Some segments \<and>
        c = JObj [(''language'', field_or kvs ''language'' JNull),
                  (''duration'', field_or kvs ''duration'' JNull),
                  (''text'', JStr (strip t)),
                  (''segments'', JArr segments),
                  (''srt'', srt),
                  (''word_timestamps'', wts),
                  (''used_bin'', JStr cand)])"
proof (cases data)
  case (JObj kvs)
  have d: "dict_get (JObj kvs) k dflt = Inr (field_or kvs k dflt)" for k dflt
    by (simp add: dict_get_def field_or_def)
  let ?v = "field_or kvs ''segments'' (JArr [])"
  show ?thesis
  proof (cases "field_or kvs ''text'' (JStr [])")
    case (JStr t)
    have "success_content data srt wts cand =
        (case py_iter ?v of
           Inl e \<Rightarrow> Inl e
         | Inr ss \<Rightarrow>
             (case comprehension segment_entry ss of
                Inl e \<Rightarrow> Inl e
              | Inr segments \<Rightarrow>
                  Inr (JObj [(''language'', field_or kvs ''language'' JNull),
                             (''duration'', field_or kvs ''duration'' JNull),
                             (''text'', JStr (strip t)),
                             (''segments'', JArr segments),
                             (''srt'', srt),
                             (''word_timestamps'', wts),
                             (''used_bin'', JStr cand)])))"
      unfolding success_content_def JObj d by (simp add: JStr py_strip_def)
    then have "success_content data srt wts cand = Inr c \<longleftrightarrow>
        (\<exists>segments. (\<exists>ss. py_iter ?v = Inr ss \<and> comprehension segment_entry ss = Inr segments) \<and>
           c = JObj [(''language'', field_or kvs ''language'' JNull),
                             (''duration'', field_or kvs ''duration'' JNull),
                             (''text'', JStr (strip t)),
                             (''segments'', JArr segments),
                             (''srt'', srt),
                             (''word_timestamps'', wts),
                             (''used_bin'', JStr cand)])"
      by (auto split: sum.splits)
    then show ?thesis
      unfolding segments_eq using JObj JStr by auto
  qed (auto simp: success_content_def JObj d py_strip_def)
qed (auto simp: success_content_def dict_get_def)


lemma load_json_file_Inr:
  "load_json_file env fs p = Inr data \<longleftrightarrow>
     (\<exists>txt. fs p = Some (File txt) \<and> json_load env txt = Some data)"
  by (auto simp: load_json_file_def read_file_def split: option.splits node.splits)

lemma transcription_of_Some:
  "transcription_of env word_ts fs out used = Some c \<longleftrightarrow>
     (\<exists>txt kvs t segments srt wts.
        fs (out @ ''.json'') = Some (File txt) \<and> json_load env txt = Some (JObj kvs) \<and>
        field_or kvs ''text'' (JStr []) = JStr t \<and>
        segment_entries (field_or kvs ''segments'' (JArr [])) = Some segments \<and>
        subtitles_of fs out = Some srt \<and>
        word_timestamps_of env word_ts fs out = Some wts \<and>
        c = JObj [(''language'', field_or kvs ''language'' JNull),
                  (''duration'', field_or kvs ''duration'' JNull),
                  (''text'', JStr (strip t)),
                  (''segments'', JArr segments),
                  (''srt'', srt),
                  (''word_timestamps'', wts),
                  (''used_bin'', JStr used)] \<and>
        json_compliant c)"
  unfolding transcription_of_def Let_def
  by (auto split: option.splits node.splits json.splits prod.splits)

lemma bind_Inr:
  "(case m of Inl e \<Rightarrow> Inl e | Inr x \<Rightarrow> f x) = Inr r \<longleftrightarrow> (\<exists>x. m = Inr x \<and> f x = Inr r)"
  by (cases m) auto

lemma read_outputs_existing:
  assumes "exists fs (out @ ''.json'')"
  shows "read_outputs env out word_ts cand p fs = Inr r \<longleftrightarrow>
           (\<exists>c. transcription_of env word_ts fs out cand = Some c \<and> r = Response 200 c)"
proof -
  let ?srt = "if exists fs (out @ ''.srt'')
              then (case read_file fs (out @ ''.srt'') of Inl e \<Rightarrow> Inl e | Inr txt \<Rightarrow> Inr (JStr txt))
              else Inr JNull"
  let ?wts = "if word_ts then
                (if exists fs (out @ ''.wts.json'') then load_json_file env fs (out @ ''.wts.json'')
                 else Inr JNull)
              else Inr JNull"
  have srt: "?srt = Inr srt \<longleftrightarrow> subtitles_of fs out = Some srt" for srt
    by (auto simp: subtitles_of_def exists_def read_file_def split: option.splits node.splits)
  have wts: "?wts = Inr wts \<longleftrightarrow> word_timestamps_of env word_ts fs out = Some wts" for wts
    by (auto simp: word_timestamps_of_def exists_def load_json_file_Inr
        split: option.splits node.splits)
  have ro: "read_outputs env out word_ts cand p fs = Inr r \<longleftrightarrow>
          (\<exists>data. load_json_file env fs (out @ ''.json'') = Inr data \<and>
             (\<exists>srt. ?srt = Inr srt \<and>
                (\<exists>wts. ?wts = Inr wts \<and>
                   (\<exists>c. success_content data srt wts cand = Inr c \<and> JSONResponse 200 c = Inr r))))"
    using assms unfolding read_outputs_def Let_def by (simp only: not_True_eq_False if_False bind_Inr)
  show ?thesis
  proof
    assume "read_outputs env out word_ts cand p fs = Inr r"
    with ro obtain data srt wts c where a:
      "load_json_file env fs (out @ ''.json'') = Inr data" "?srt = Inr srt" "?wts = Inr wts"
      "success_content data srt wts cand = Inr c" "JSONResponse 200 c = Inr r"
      by blast
    from a(1) obtain tx where t: "fs (out @ ''.json'') = Some (File tx)" "json_load env tx = Some data"
      unfolding load_json_file_Inr by blast
    from a(4) obtain kvs t segments where s: "data = JObj kvs"
      "field_or kvs ''text'' (JStr []) = JStr t"
      "segment_entries (field_or kvs ''segments'' (JArr [])) = Some segments"
      "c = JObj [(''language'', field_or kvs ''language'' JNull),
                  (''duration'', field_or kvs ''duration'' JNull),
                  (''text'', JStr (strip t)),
                  (''segments'', JArr segments),
                  (''srt'', srt),
                  (''word_timestamps'', wts),
                  (''used_bin'', JStr cand)]"
      unfolding success_content_Inr by blast
    from a(5) have j: "json_compliant c" "r = Response 200 c"
      unfolding JSONResponse_Inr by simp_all
    from a(2) have srt': "subtitles_of fs out = Some srt" unfolding srt .
    from a(3) have wts': "word_timestamps_of env word_ts fs out = Some wts" unfolding wts .
    have "transcription_of env word_ts fs out cand = Some c"
      unfolding transcription_of_Some using t s srt' wts' j(1) by blast
    with j(2) show "\<exists>c. transcription_of env word_ts fs out cand = Some c \<and> r = Response 200 c"
      by blast
  next
    assume "\<exists>c. transcription_of env word_ts fs out cand = Some c \<and> r = Response 200 c"
    then obtain c where c: "transcription_of env word_ts fs out cand = Some c" "r = Response 200 c"
      by blast
    from c(1) obtain tx kvs t segments srt wts where s:
      "fs (out @ ''.json'') = Some (File tx)" "json_load env tx = Some (JObj kvs)"
      "field_or kvs ''text'' (JStr []) = JStr t"
      "segment_entries (field_or kvs ''segments'' (JArr [])) = Some segments"
      "subtitles_of fs out = Some srt" "word_timestamps_of env word_ts fs out = Some wts"
      "c = JObj [(''language'', field_or kvs ''language'' JNull),
                  (''duration'', field_or kvs ''duration'' JNull),
                  (''text'', JStr (strip t)),
                  (''segments'', JArr segments),
                  (''srt'', srt),
                  (''word_timestamps'', wts),
                  (''used_bin'', JStr cand)]"
      "json_compliant c"
      unfolding transcription_of_Some by blast
    have 1: "load_json_file env fs (out @ ''.json'') = Inr (JObj kvs)"
      unfolding load_json_file_Inr using s(1,2) by blast
    have 2: "?srt = Inr srt" unfolding srt by (rule s(5))
    have 3: "?wts = Inr wts" unfolding wts by (rule s(6))
    have 4: "success_content (JObj kvs) srt wts cand = Inr c"
      unfolding success_content_Inr using s(3,4,7) by blast
    have 5: "JSONResponse 200 c = Inr r"
      unfolding JSONResponse_Inr using s(8) c(2) by simp
    from 1 2 3 4 5 show "read_outputs env out word_ts cand p fs = Inr r"
      unfolding ro by blast
  qed
qed

lemma read_outputs_cases:
  "(\<not> exists fs (out @ ''.json'') \<longrightarrow>
      error_response (read_outputs env out word_ts cand p fs)) \<and>
   (exists fs (out @ ''.json'') \<longrightarrow>
      (case transcription_of env word_ts fs out cand of
         Some c \<Rightarrow> read_outputs env out word_ts cand p fs = Inr (Response 200 c)
       | None \<Rightarrow> (\<exists>e. read_outputs env out word_ts cand p fs = Inl e)))"
proof (intro conjI impI)
  assume "\<not> exists fs (out @ ''.json'')"
  then show "error_response (read_outputs env out word_ts cand p fs)"
    by (simp add: read_outputs_def Let_def JSONResponse_def error_response_def has_error_field_def)
next
  assume e: "exists fs (out @ ''.json'')"
  note ro = read_outputs_existing [OF e, of env word_ts cand p]
  show "case transcription_of env word_ts fs out cand of
         Some c \<Rightarrow> read_outputs env out word_ts cand p fs = Inr (Response 200 c)
       | None \<Rightarrow> (\<exists>e. read_outputs env out word_ts cand p fs = Inl e)"
  proof (cases "transcription_of env word_ts fs out cand")
    case None
    with ro have "read_outputs env out word_ts cand p fs \<noteq> Inr r" for r by simp
    then show ?thesis using None by (cases "read_outputs env out word_ts cand p fs") auto
  next
    case (Some c)
    with ro [of "Response 200 c"] show ?thesis by simp
  qed
qed

section \<open>The command line of a request\<close>

text \<open>What the log of a request says, and what the response is for its last entry.\<close>

lemma transcribe_log:
  assumes "transcribe env cfg mp file language task word_ts w = (res, w')"
  shows "\<exists>new. attempts w' = attempts w @ new \<and> new \<noteq> [] \<and> length new \<le> 3 \<and>
           map fst new = map (request_cmd env cfg mp file language task word_ts)
                           (take (length new) (candidates_of cfg)) \<and>
           (\<forall>e \<in> set (butlast new). goes_on (snd e)) \<and>
           (length new < 3 \<longrightarrow> \<not> goes_on (snd (last new))) \<and>
           hd (fst (last new)) = candidates_of cfg ! (length new - 1) \<and>
           (case snd (last new) of
              Raised e \<Rightarrow> res = Inl e
            | Not_found \<Rightarrow>
                res = JSONResponse 500
                        (JObj [(''error'',
                                JStr (''whisper binary not found (tried ''
                                      @ repr_list env (candidates_of cfg) @ '')''))])
            | Exited p \<Rightarrow>
                res = (if returncode p \<noteq> 0 then
                         JSONResponse 500
                           (JObj [(''error'', JStr ''whisper.cpp failed''),
                                  (''exit_code'', JInt (returncode p)),
                                  (''stderr_tail'', JStr (slice_from (stderr p) (- 2000))),
                                  (''stdout_tail'', JStr (slice_from (stdout p) (- 2000))),
                                  (''cmd'', JStr (str_join '' '' (fst (last new)))),
                                  (''tried_bins'', JArr (map JStr (candidates_of cfg))),
                                  (''used_bin'', JStr (hd (fst (last new))))])
                       else read_outputs env (out_prefix_of env) word_ts (hd (fst (last new))) p
                              (files w')))"
proof -
  from transcribe_trace [OF assms] obtain tr where n:
    "attempts w' = attempts w @ map logged tr" "tr \<noteq> []" "length tr \<le> 3"
    "map fst tr = map (request_cmd env cfg mp file language task word_ts)
                          (take (length tr) (candidates_of cfg))"
    "\<forall>s \<in> set (butlast tr). goes_on (snd (logged s))"
    "length tr < 3 \<longrightarrow> \<not> goes_on (snd (logged (last tr)))"
    "hd (fst (last tr)) = candidates_of cfg ! (length tr - 1)"
    and out: "(case snd (logged (last tr)) of
              Raised e \<Rightarrow> res = Inl e \<and> files w' = fs_after (snd (snd (last tr)))
            | Not_found \<Rightarrow>
                files w' = without_file (tmp_path_of env file) (fs_after (snd (snd (last tr)))) \<and>
                res = JSONResponse 500
                        (JObj [(''error'',
                                JStr (''whisper binary not found (tried ''
                                      @ repr_list env (candidates_of cfg) @ '')''))])
            | Exited p \<Rightarrow>
                files w' = without_file (tmp_path_of env file) (fs_after (snd (snd (last tr)))) \<and>
                res = (if returncode p \<noteq> 0 then
                         JSONResponse 500
                           (JObj [(''error'', JStr ''whisper.cpp failed''),
                                  (''exit_code'', JInt (returncode p)),
                                  (''stderr_tail'', JStr (slice_from (stderr p) (- 2000))),
                                  (''stdout_tail'', JStr (slice_from (stdout p) (- 2000))),
                                  (''cmd'', JStr (str_join '' '' (fst (last tr)))),
                                  (''tried_bins'', JArr (map JStr (candidates_of cfg))),
                                  (''used_bin'', JStr (hd (fst (last tr))))])
                       else read_outputs env (out_prefix_of env) word_ts (hd (fst (last tr))) p
                              (files w')))"
    by blast
  let ?new = "map logged tr"
  have l: "last ?new = logged (last tr)" using n(2) by (simp add: last_map)
  have f: "fst (last ?new) = fst (last tr)" unfolding l by (simp add: logged_def)
  have m: "map fst ?new = map fst tr" by (simp add: logged_def)
  have b: "\<forall>e \<in> set (butlast ?new). goes_on (snd e)"
    using n(5) by (simp add: map_butlast [symmetric])
  have o: "(case snd (last ?new) of
              Raised e \<Rightarrow> res = Inl e
            | Not_found \<Rightarrow>
                res = JSONResponse 500
                        (JObj [(''error'',
                                JStr (''whisper binary not found (tried ''
                                      @ repr_list env (candidates_of cfg) @ '')''))])
            | Exited p \<Rightarrow>
                res = (if returncode p \<noteq> 0 then
                         JSONResponse 500
                           (JObj [(''error'', JStr ''whisper.cpp failed''),
                                  (''exit_code'', JInt (returncode p)),
                                  (''stderr_tail'', JStr (slice_from (stderr p) (- 2000))),
                                  (''stdout_tail'', JStr (slice_from (stdout p) (- 2000))),
                                  (''cmd'', JStr (str_join '' '' (fst (last ?new)))),
                                  (''tried_bins'', JArr (map JStr (candidates_of cfg))),
                                  (''used_bin'', JStr (hd (fst (last ?new))))])
                       else read_outputs env (out_prefix_of env) word_ts (hd (fst (last ?new))) p
                              (files w')))"
    unfolding f using out unfolding l by (cases "snd (logged (last tr))") simp_all
  show ?thesis
    using n(1-4) n(6,7) b o unfolding l [symmetric] f [symmetric] m [symmetric]
    by (intro exI [of _ ?new]) simp
qed

text \<open>
  C7: the command line of \<open>_run\<close> is the binary name and the twelve fixed arguments,
  then \<open>-l\<close> and the language iff a language was supplied, then \<open>-tr\<close> iff the task is
  \<open>translate\<close>, then \<open>-owts\<close> iff word timestamps were requested; and every command a
  request hands to \<open>subprocess.run\<close> is this command line for one of the candidates,
  with the request's temporary file and output prefix.
\<close>

theorem command_line:
  "build_cmd cfg MODEL_PATH bin_name tmp_path out_prefix language task word_ts =
     [bin_name, ''-m'', MODEL_PATH, ''-f'', tmp_path, ''-oj'', ''-osrt'', ''-of'', out_prefix,
      ''-t'', str_int (THREADS cfg), ''-bs'', str_int (BEAM_SIZE cfg)]
     @ (if language_supplied language then [''-l'', the language] else [])
     @ (if task = ''translate'' then [''-tr''] else [])
     @ (if word_ts then [''-owts''] else [])
   \<and> (transcribe env cfg MODEL_PATH file language task word_ts w = (res, w') \<longrightarrow>
        (\<exists>new. attempts w' = attempts w @ new \<and>
           (\<forall>e \<in> set new. \<exists>c \<in> set (candidates_of cfg).
              fst e = build_cmd cfg MODEL_PATH c (tmp_path_of env file) (out_prefix_of env)
                        language task word_ts)))"
proof (intro conjI impI)
  assume t: "transcribe env cfg MODEL_PATH file language task word_ts w = (res, w')"
  from transcribe_log [OF t] obtain new where n: "attempts w' = attempts w @ new"
    "map fst new = map (request_cmd env cfg MODEL_PATH file language task word_ts)
                     (take (length new) (candidates_of cfg))"
    by blast
  have "\<exists>c \<in> set (candidates_of cfg).
          fst e = build_cmd cfg MODEL_PATH c (tmp_path_of env file) (out_prefix_of env)
                    language task word_ts" if "e \<in> set new" for e
  proof -
    from that have "fst e \<in> set (map fst new)" by simp
    with n(2) obtain c where "c \<in> set (take (length new) (candidates_of cfg))"
      "fst e = request_cmd env cfg MODEL_PATH file language task word_ts c"
      by auto
    then show ?thesis by (auto simp: request_cmd_def dest: in_set_takeD)
  qed
  with n(1) show "\<exists>new. attempts w' = attempts w @ new \<and>
           (\<forall>e \<in> set new. \<exists>c \<in> set (candidates_of cfg).
              fst e = build_cmd cfg MODEL_PATH c (tmp_path_of env file) (out_prefix_of env)
                        language task word_ts)"
    by blast
qed (rule build_cmd_shape)

theorem command_line_witness:
  "build_cmd example_cfg ''/m.bin'' ''whisper-cli'' ''/tmp/tmpa1.mp3'' ''/tmp/tmpb2/out''
     (Some ''en'') ''translate'' True = [''whisper-cli'', ''-m'', ''/m.bin'', ''-f'', ''/tmp/tmpa1.mp3'', ''-oj'', ''-osrt'', ''-of'', ''/tmp/tmpb2/out'', ''-t'', ''4'', ''-bs'', ''5'', ''-l'', ''en'', ''-tr'', ''-owts'']
   \<and> build_cmd example_cfg ''/m.bin'' ''whisper-cli'' ''/tmp/tmpa1.mp3'' ''/tmp/tmpb2/out''
     None ''transcribe'' False = [''whisper-cli'', ''-m'', ''/m.bin'', ''-f'', ''/tmp/tmpa1.mp3'', ''-oj'', ''-osrt'', ''-of'', ''/tmp/tmpb2/out'', ''-t'', ''4'', ''-bs'', ''5'']
   \<and> map fst (attempts (snd (transcribe (example_env old_and_new_binary) example_cfg ''/m.bin''
        example_upload (Some ''en'') ''translate'' True empty_world))) = [[''main'', ''-m'', ''/m.bin'', ''-f'', ''/tmp/tmpa1.mp3'', ''-oj'', ''-osrt'', ''-of'', ''/tmp/tmpb2/out'', ''-t'', ''4'', ''-bs'', ''5'', ''-l'', ''en'', ''-tr'', ''-owts''], [''whisper-cli'', ''-m'', ''/m.bin'', ''-f'', ''/tmp/tmpa1.mp3'', ''-oj'', ''-osrt'', ''-of'', ''/tmp/tmpb2/out'', ''-t'', ''4'', ''-bs'', ''5'', ''-l'', ''en'', ''-tr'', ''-owts'']]"
  using command_line [of example_cfg "''/m.bin''" "''whisper-cli''" "''/tmp/tmpa1.mp3''"
      "''/tmp/tmpb2/out''" "Some ''en''" "''translate''" True "example_env old_and_new_binary"
      example_upload empty_world]
    command_line [of example_cfg "''/m.bin''" "''whisper-cli''" "''/tmp/tmpa1.mp3''"
      "''/tmp/tmpb2/out''" None "''transcribe''" False]
  by (simp add: old_and_new_run example_cmd)

section \<open>The loop over the candidates\<close>

text \<open>
  C2, as amended: the candidates are tried in their order, at least one and at most
  three of them. Every attempt before the last one either found no binary or ended in
  a non-zero exit with a deprecation notice. When fewer than three were tried, the last
  attempt either found its binary and exited with 0 or without a deprecation notice
  (whatever its exit code), or it raised an exception other than \<open>FileNotFoundError\<close>.
  An attempt that raises is the last one, and the request ends with its exception.
  The attempts are runs of their commands, the first on the file system in which the
  upload was stored and each later one on what the run before left.
\<close>

theorem candidates_tried_in_order:
  assumes "transcribe env cfg MODEL_PATH file language task word_ts w = (res, w')"
  shows "\<exists>new. attempts w' = attempts w @ new \<and> new \<noteq> [] \<and> length new \<le> 3 \<and>
           map fst new = map (request_cmd env cfg MODEL_PATH file language task word_ts)
                           (take (length new) (candidates_of cfg)) \<and>
           (\<forall>e \<in> set (butlast new).
              snd e = Not_found \<or>
              (\<exists>p. snd e = Exited p \<and> returncode p \<noteq> 0 \<and>
                   sublist ''deprecated'' (lower (stdout p @ stderr p)))) \<and>
           (length new < 3 \<longrightarrow>
              (\<exists>p. snd (last new) = Exited p \<and>
                   (returncode p = 0 \<or> \<not> sublist ''deprecated'' (lower (stdout p @ stderr p)))) \<or>
              (\<exists>e. snd (last new) = Raised e)) \<and>
           (\<forall>e. snd (last new) = Raised e \<longrightarrow> \<not> is_FileNotFoundError e \<and> res = Inl e) \<and>
           (\<exists>tr. new = map logged tr \<and> run_in_turn env (files (stage_upload env file w)) tr)"
proof -
  from transcribe_trace [OF assms] obtain tr where t:
    "attempts w' = attempts w @ map logged tr" "tr \<noteq> []" "run_in_turn env (files (stage_upload env file w)) tr"
    by blast
  from transcribe_log [OF assms] obtain new where n:
    "attempts w' = attempts w @ new" "new \<noteq> []" "length new \<le> 3"
    "map fst new = map (request_cmd env cfg MODEL_PATH file language task word_ts)
                     (take (length new) (candidates_of cfg))"
    "\<forall>e \<in> set (butlast new). goes_on (snd e)"
    "length new < 3 \<longrightarrow> \<not> goes_on (snd (last new))"
    and out: "(case snd (last new) of
              Raised e \<Rightarrow> res = Inl e
            | Not_found \<Rightarrow>
                res = JSONResponse 500
                        (JObj [(''error'',
                                JStr (''whisper binary not found (tried ''
                                      @ repr_list env (candidates_of cfg) @ '')''))])
            | Exited p \<Rightarrow>
                res = (if returncode p \<noteq> 0 then
                         JSONResponse 500
                           (JObj [(''error'', JStr ''whisper.cpp failed''),
                                  (''exit_code'', JInt (returncode p)),
                                  (''stderr_tail'', JStr (slice_from (stderr p) (- 2000))),
                                  (''stdout_tail'', JStr (slice_from (stdout p) (- 2000))),
                                  (''cmd'', JStr (str_join '' '' (fst (last new)))),
                                  (''tried_bins'', JArr (map JStr (candidates_of cfg))),
                                  (''used_bin'', JStr (hd (fst (last new))))])
                       else read_outputs env (out_prefix_of env) word_ts (hd (fst (last new))) p
                              (files w')))"
    by blast
  from t(1) n(1) have new: "new = map logged tr" by simp
  have a: "snd e = Not_found \<or>
        (\<exists>p. snd e = Exited p \<and> returncode p \<noteq> 0 \<and>
             sublist ''deprecated'' (lower (stdout p @ stderr p)))"
    if "e \<in> set (butlast new)" for e
    using n(5) that by (simp add: goes_on_iff)
  have b: "(\<exists>p. snd (last new) = Exited p \<and>
                   (returncode p = 0 \<or> \<not> sublist ''deprecated'' (lower (stdout p @ stderr p)))) \<or>
              (\<exists>e. snd (last new) = Raised e)" if "length new < 3"
  proof -
    from that n(6) have "\<not> goes_on (snd (last new))" by simp
    then show ?thesis by (cases "snd (last new)") (auto simp: goes_on_iff)
  qed
  have c: "\<not> is_FileNotFoundError e \<and> res = Inl e" if "snd (last new) = Raised e" for e
  proof -
    have "snd (last new) = outcome_of (snd (snd (last tr)))"
      using t(2) by (simp add: new last_map logged_def)
    with that have "\<not> is_FileNotFoundError e"
      by (auto simp: outcome_of_def split: run_outcome.splits if_splits)
    with out that show ?thesis by simp
  qed
  from new t(3) have d: "\<exists>tr. new = map logged tr \<and>
                          run_in_turn env (files (stage_upload env file w)) tr"
    by blast
  from n(1-4) a b c d show ?thesis by blast
qed

theorem candidates_tried_in_order_witness:
  "attempts (snd (transcribe (example_env old_and_new_binary) example_cfg ''/m.bin''
      example_upload (Some ''en'') ''translate'' True empty_world)) =
     [([''main'', ''-m'', ''/m.bin'', ''-f'', ''/tmp/tmpa1.mp3'', ''-oj'', ''-osrt'', ''-of'', ''/tmp/tmpb2/out'', ''-t'', ''4'', ''-bs'', ''5'', ''-l'', ''en'', ''-tr'', ''-owts''], Exited \<lparr>returncode = 1, stdout = ''DEPRE'', stderr = ''CATED''\<rparr>),
      ([''whisper-cli'', ''-m'', ''/m.bin'', ''-f'', ''/tmp/tmpa1.mp3'', ''-oj'', ''-osrt'', ''-of'', ''/tmp/tmpb2/out'', ''-t'', ''4'', ''-bs'', ''5'', ''-l'', ''en'', ''-tr'', ''-owts''], Exited (quiet 0))]
   \<and> (\<exists>new. new \<noteq> [] \<and> length new \<le> 3 \<and>
          [([''main'', ''-m'', ''/m.bin'', ''-f'', ''/tmp/tmpa1.mp3'', ''-oj'', ''-osrt'', ''-of'', ''/tmp/tmpb2/out'', ''-t'', ''4'', ''-bs'', ''5'', ''-l'', ''en'', ''-tr'', ''-owts''], Exited \<lparr>returncode = 1, stdout = ''DEPRE'', stderr = ''CATED''\<rparr>),
           ([''whisper-cli'', ''-m'', ''/m.bin'', ''-f'', ''/tmp/tmpa1.mp3'', ''-oj'', ''-osrt'', ''-of'', ''/tmp/tmpb2/out'', ''-t'', ''4'', ''-bs'', ''5'', ''-l'', ''en'', ''-tr'', ''-owts''], Exited (quiet 0))] = new \<and>
          (\<exists>p. snd (last new) = Exited p \<and> returncode p = 0))
   \<and> fst (transcribe (example_env unexecutable_binary) example_cfg ''/m.bin''
      example_upload None ''transcribe'' False empty_world) = Inl (PermissionError ''main'')"
proof -
  have 1: "\<exists>new. new \<noteq> [] \<and> length new \<le> 3 \<and>
          [([''main'', ''-m'', ''/m.bin'', ''-f'', ''/tmp/tmpa1.mp3'', ''-oj'', ''-osrt'', ''-of'', ''/tmp/tmpb2/out'', ''-t'', ''4'', ''-bs'', ''5'', ''-l'', ''en'', ''-tr'', ''-owts''], Exited \<lparr>returncode = 1, stdout = ''DEPRE'', stderr = ''CATED''\<rparr>),
           ([''whisper-cli'', ''-m'', ''/m.bin'', ''-f'', ''/tmp/tmpa1.mp3'', ''-oj'', ''-osrt'', ''-of'', ''/tmp/tmpb2/out'', ''-t'', ''4'', ''-bs'', ''5'', ''-l'', ''en'', ''-tr'', ''-owts''], Exited (quiet 0))] = new \<and>
          (\<exists>p. snd (last new) = Exited p \<and> returncode p = 0)"
    using candidates_tried_in_order [OF old_and_new_run]
    by (simp add: empty_world_sel old_and_new_run quiet_sel)
  from candidates_tried_in_order [OF surjective_pairing, of "example_env unexecutable_binary"
      example_cfg "''/m.bin''" example_upload None "''transcribe''" False empty_world]
  obtain new where n: "attempts (snd (transcribe (example_env unexecutable_binary) example_cfg ''/m.bin''
      example_upload None ''transcribe'' False empty_world)) = attempts empty_world @ new"
    "\<forall>e. snd (last new) = Raised e \<longrightarrow> \<not> is_FileNotFoundError e \<and> fst (transcribe (example_env unexecutable_binary) example_cfg ''/m.bin''
      example_upload None ''transcribe'' False empty_world) = Inl e"
    by blast
  from n(1) have "new = [([''main'', ''-m'', ''/m.bin'', ''-f'', ''/tmp/tmpa1.mp3'', ''-oj'', ''-osrt'', ''-of'', ''/tmp/tmpb2/out'', ''-t'', ''4'', ''-bs'', ''5''], Raised (PermissionError ''main''))]"
    by (simp add: unexecutable_run empty_world_sel)
  with n(2) have 2: "fst (transcribe (example_env unexecutable_binary) example_cfg ''/m.bin''
      example_upload None ''transcribe'' False empty_world) = Inl (PermissionError ''main'')" by simp
  from 1 2 show ?thesis by (simp add: old_and_new_run)
qed

text \<open>
  C2 as stated fails, whichever way a run is taken to succeed. With a binary that
  exits with 1 and prints nothing, the loop stops at the first candidate although its
  run failed. With an old binary that exits with 1 and a deprecation notice, the loop
  moves on although that binary was found and ran.
\<close>

theorem until_one_succeeds_counterexample:
  "map snd (attempts (snd (transcribe (example_env failing_binary) example_cfg ''/m.bin''
      example_upload None ''transcribe'' False empty_world))) = [Exited (quiet 1)]
   \<and> returncode (quiet 1) \<noteq> 0
   \<and> map snd (attempts (snd (transcribe (example_env old_and_new_binary) example_cfg ''/m.bin''
      example_upload (Some ''en'') ''translate'' True empty_world))) =
       [Exited \<lparr>returncode = 1, stdout = ''DEPRE'', stderr = ''CATED''\<rparr>, Exited (quiet 0)]"
  by (simp add: failing_run old_and_new_run quiet_sel)

section \<open>Retrying after a non-zero exit\<close>

text \<open>
  C8: take an attempt of a request whose binary ran and exited non-zero. The loop went
  on to a further candidate only if \<open>deprecated\<close> occurs in its lower-cased output,
  standard output followed by standard error (and it did go on if that is so and a
  candidate was left). If \<open>deprecated\<close> does not occur, the attempt is the last one and
  the response is the 500 response reporting its exit code.
\<close>

theorem nonzero_exit_retry:
  assumes "transcribe env cfg MODEL_PATH file language task word_ts w = (res, w')"
    and "attempts w' = attempts w @ new" and "i < length new"
    and "new ! i = (cmd, Exited p)" and "returncode p \<noteq> 0"
  shows "(Suc i < length new \<longrightarrow> sublist ''deprecated'' (lower (stdout p @ stderr p))) \<and>
         (sublist ''deprecated'' (lower (stdout p @ stderr p)) \<and> i < 2 \<longrightarrow> Suc i < length new) \<and>
         (\<not> sublist ''deprecated'' (lower (stdout p @ stderr p)) \<longrightarrow>
            Suc i = length new \<and>
            res = Inr (Response 500
                    (JObj [(''error'', JStr ''whisper.cpp failed''),
                           (''exit_code'', JInt (returncode p)),
                           (''stderr_tail'', JStr (slice_from (stderr p) (- 2000))),
                           (''stdout_tail'', JStr (slice_from (stdout p) (- 2000))),
                           (''cmd'', JStr (str_join '' '' cmd)),
                           (''tried_bins'', JArr (map JStr (candidates_of cfg))),
                           (''used_bin'', JStr (candidates_of cfg ! i))])))"
proof -
  from transcribe_log [OF assms(1)] obtain new' where n:
    "attempts w' = attempts w @ new'" "new' \<noteq> []" "length new' \<le> 3"
    "\<forall>e \<in> set (butlast new'). goes_on (snd e)"
    "length new' < 3 \<longrightarrow> \<not> goes_on (snd (last new'))"
    "hd (fst (last new')) = candidates_of cfg ! (length new' - 1)"
    and out: "(case snd (last new') of
              Raised e \<Rightarrow> res = Inl e
            | Not_found \<Rightarrow>
                res = JSONResponse 500
                        (JObj [(''error'',
                                JStr (''whisper binary not found (tried ''
                                      @ repr_list env (candidates_of cfg) @ '')''))])
            | Exited p \<Rightarrow>
                res = (if returncode p \<noteq> 0 then
                         JSONResponse 500
                           (JObj [(''error'', JStr ''whisper.cpp failed''),
                                  (''exit_code'', JInt (returncode p)),
                                  (''stderr_tail'', JStr (slice_from (stderr p) (- 2000))),
                                  (''stdout_tail'', JStr (slice_from (stdout p) (- 2000))),
                                  (''cmd'', JStr (str_join '' '' (fst (last new')))),
                                  (''tried_bins'', JArr (map JStr (candidates_of cfg))),
                                  (''used_bin'', JStr (hd (fst (last new'))))])
                       else read_outputs env (out_prefix_of env) word_ts (hd (fst (last new'))) p
                              (files w')))"
    by blast
  from n(1) assms(2) have eq: "new' = new" by simp
  let ?dep = "sublist ''deprecated'' (lower (stdout p @ stderr p))"
  have go: "goes_on (snd (new ! i)) \<longleftrightarrow> ?dep"
    using assms(4,5) by (simp add: goes_on_iff)
  have a: "?dep" if "Suc i < length new"
  proof -
    from that have "i < length (butlast new)" by simp
    then have "butlast new ! i \<in> set (butlast new)" by (rule nth_mem)
    moreover have "butlast new ! i = new ! i"
      using \<open>i < length (butlast new)\<close> by (simp add: nth_butlast)
    ultimately show ?thesis using n(4) eq go by auto
  qed
  have b: "Suc i < length new" if "?dep" "i < 2"
  proof (rule ccontr)
    assume "\<not> Suc i < length new"
    with assms(3) have i: "i = length new - 1" by simp
    with that(2) assms(3) have "length new < 3" by simp
    with n(5) eq have "\<not> goes_on (snd (last new))" by blast
    moreover have "last new = new ! i" using i n(2) eq by (simp add: last_conv_nth)
    ultimately show False using go that(1) by simp
  qed
  have c: "Suc i = length new \<and>
            res = Inr (Response 500
                    (JObj [(''error'', JStr ''whisper.cpp failed''),
                           (''exit_code'', JInt (returncode p)),
                           (''stderr_tail'', JStr (slice_from (stderr p) (- 2000))),
                           (''stdout_tail'', JStr (slice_from (stdout p) (- 2000))),
                           (''cmd'', JStr (str_join '' '' cmd)),
                           (''tried_bins'', JArr (map JStr (candidates_of cfg))),
                           (''used_bin'', JStr (candidates_of cfg ! i))]))" if "\<not> ?dep"
  proof -
    from a that assms(3) have i: "Suc i = length new" by auto
    then have li: "length new - 1 = i" by simp
    have "last new = new ! (length new - 1)" using n(2) eq by (simp add: last_conv_nth)
    with li assms(4) have l: "last new = (cmd, Exited p)" by simp
    from out [unfolded eq l] n(6) [unfolded eq l li] assms(5) i show ?thesis
      by (simp add: JSONResponse_def)
  qed
  from a b c show ?thesis by blast
qed

theorem nonzero_exit_retry_witness:
  "sublist ''deprecated'' (lower (''DEPRE'' @ ''CATED''))
   \<and> \<not> sublist ''deprecated'' (lower ([] @ []))
   \<and> fst (transcribe (example_env failing_binary) example_cfg ''/m.bin'' example_upload None
               ''transcribe'' False empty_world) =
        Inr (Response 500
               (JObj [(''error'', JStr ''whisper.cpp failed''),
                      (''exit_code'', JInt 1),
                      (''stderr_tail'', JStr []),
                      (''stdout_tail'', JStr []),
                      (''cmd'', JStr (str_join '' '' [''main'', ''-m'', ''/m.bin'', ''-f'', ''/tmp/tmpa1.mp3'', ''-oj'', ''-osrt'', ''-of'', ''/tmp/tmpb2/out'', ''-t'', ''4'', ''-bs'', ''5''])),
                      (''tried_bins'', JArr (map JStr (candidates_of example_cfg))),
                      (''used_bin'', JStr (candidates_of example_cfg ! 0))]))"
proof -
  let ?old = "\<lparr>returncode = 1, stdout = ''DEPRE'', stderr = ''CATED''\<rparr>"
  let ?new = "[([''main'', ''-m'', ''/m.bin'', ''-f'', ''/tmp/tmpa1.mp3'', ''-oj'', ''-osrt'', ''-of'', ''/tmp/tmpb2/out'', ''-t'', ''4'', ''-bs'', ''5'', ''-l'', ''en'', ''-tr'', ''-owts''], Exited ?old), ([''whisper-cli'', ''-m'', ''/m.bin'', ''-f'', ''/tmp/tmpa1.mp3'', ''-oj'', ''-osrt'', ''-of'', ''/tmp/tmpb2/out'', ''-t'', ''4'', ''-bs'', ''5'', ''-l'', ''en'', ''-tr'', ''-owts''], Exited (quiet 0))]"
  have 1: "sublist ''deprecated'' (lower (stdout ?old @ stderr ?old))"
    using nonzero_exit_retry [OF old_and_new_run, of ?new 0 "[''main'', ''-m'', ''/m.bin'', ''-f'', ''/tmp/tmpa1.mp3'', ''-oj'', ''-osrt'', ''-of'', ''/tmp/tmpb2/out'', ''-t'', ''4'', ''-bs'', ''5'', ''-l'', ''en'', ''-tr'', ''-owts'']" ?old]
    by (simp add: empty_world_sel)
  have 2: "\<not> sublist ''deprecated'' (lower (stdout (quiet 1) @ stderr (quiet 1))) \<longrightarrow>
        fst (transcribe (example_env failing_binary) example_cfg ''/m.bin'' example_upload None
               ''transcribe'' False empty_world) =
        Inr (Response 500
               (JObj [(''error'', JStr ''whisper.cpp failed''),
                      (''exit_code'', JInt (returncode (quiet 1))),
                      (''stderr_tail'', JStr (slice_from (stderr (quiet 1)) (- 2000))),
                      (''stdout_tail'', JStr (slice_from (stdout (quiet 1)) (- 2000))),
                      (''cmd'', JStr (str_join '' '' [''main'', ''-m'', ''/m.bin'', ''-f'', ''/tmp/tmpa1.mp3'', ''-oj'', ''-osrt'', ''-of'', ''/tmp/tmpb2/out'', ''-t'', ''4'', ''-bs'', ''5''])),
                      (''tried_bins'', JArr (map JStr (candidates_of example_cfg))),
                      (''used_bin'', JStr (candidates_of example_cfg ! 0))]))"
    using nonzero_exit_retry [OF failing_run, of "[([''main'', ''-m'', ''/m.bin'', ''-f'', ''/tmp/tmpa1.mp3'', ''-oj'', ''-osrt'', ''-of'', ''/tmp/tmpb2/out'', ''-t'', ''4'', ''-bs'', ''5''], Exited (quiet 1))]" 0 "[''main'', ''-m'', ''/m.bin'', ''-f'', ''/tmp/tmpa1.mp3'', ''-oj'', ''-osrt'', ''-of'', ''/tmp/tmpb2/out'', ''-t'', ''4'', ''-bs'', ''5'']" "quiet 1"]
    by (simp add: empty_world_sel quiet_sel failing_run example_paths)
  have 3: "slice_from ([] :: string) (- 2000) = []" by (simp add: slice_from_def)
  from 1 2 show ?thesis by (simp add: quiet_sel 3 example_paths lower_def)
qed

section \<open>Removing the temporary input file\<close>





section \<open>The outcome of a request\<close>

lemma json_compliant_strs: "json_compliant (JArr (map JStr xs))"
  by (induction xs) simp_all

lemma transcribe_outcome:
  assumes "transcribe env cfg MODEL_PATH file language task word_ts w = (res, w')"
  shows "attempts w' \<noteq> [] \<and>
         (case snd (last (attempts w')) of
            Raised e \<Rightarrow> res = Inl e
          | Not_found \<Rightarrow> error_response res
          | Exited p \<Rightarrow>
              if returncode p \<noteq> 0 \<or> \<not> exists (files w') (out_prefix_of env @ ''.json'')
              then error_response res
              else (case transcription_of env word_ts (files w') (out_prefix_of env)
                           (hd (fst (last (attempts w')))) of
                      Some c \<Rightarrow> res = Inr (Response 200 c)
                    | None \<Rightarrow> (\<exists>e. res = Inl e)))"
proof -
  from transcribe_log [OF assms] obtain new where n:
    "attempts w' = attempts w @ new" "new \<noteq> []"
    and out: "(case snd (last new) of
              Raised e \<Rightarrow> res = Inl e
            | Not_found \<Rightarrow>
                res = JSONResponse 500
                        (JObj [(''error'',
                                JStr (''whisper binary not found (tried ''
                                      @ repr_list env (candidates_of cfg) @ '')''))])
            | Exited p \<Rightarrow>
                res = (if returncode p \<noteq> 0 then
                         JSONResponse 500
                           (JObj [(''error'', JStr ''whisper.cpp failed''),
                                  (''exit_code'', JInt (returncode p)),
                                  (''stderr_tail'', JStr (slice_from (stderr p) (- 2000))),
                                  (''stdout_tail'', JStr (slice_from (stdout p) (- 2000))),
                                  (''cmd'', JStr (str_join '' '' (fst (last new)))),
                                  (''tried_bins'', JArr (map JStr (candidates_of cfg))),
                                  (''used_bin'', JStr (hd (fst (last new))))])
                       else read_outputs env (out_prefix_of env) word_ts (hd (fst (last new))) p
                              (files w')))"
    by blast
  from n have l: "last (attempts w') = last new" and ne: "attempts w' \<noteq> []" by simp_all
  note rc = read_outputs_cases [of "files w'" "out_prefix_of env" env word_ts "hd (fst (last new))"]
  show ?thesis
  proof (cases "snd (last new)")
    case (Exited p)
    show ?thesis
    proof (cases "returncode p \<noteq> 0")
      case True
      with out Exited have "error_response res"
        by (simp add: JSONResponse_def error_response_def has_error_field_def json_compliant_strs
            del: json_compliant.simps(2))
      with True Exited ne show ?thesis unfolding l by simp
    next
      case False
      with out Exited have r: "res = read_outputs env (out_prefix_of env) word_ts
                                 (hd (fst (last new))) p (files w')"
        by simp
      from rc [of p] False Exited ne show ?thesis unfolding l r by simp
    qed
  next
    case Not_found
    with out have "error_response res"
      by (simp add: JSONResponse_def error_response_def has_error_field_def)
    with Not_found ne show ?thesis unfolding l by simp
  next
    case (Raised e)
    with out ne show ?thesis unfolding l by simp
  qed
qed

section \<open>Failures and responses\<close>




section \<open>The response on success\<close>

text \<open>
  C4: the endpoint returns a 200 response with a given content exactly when the last
  process exited with 0, the JSON output file is there and parses to an object whose
  text is a string and whose segments have entries, and the content is: the object's
  language and duration (null when absent), its text stripped of surrounding
  whitespace, one entry per segment with the segment's start, end and stripped text,
  the subtitle file's text if that file exists and null otherwise, the parsed
  word-timestamp file if word timestamps were requested and that file exists and null
  otherwise, and the candidate that was used; and all numbers in it are finite.
\<close>

theorem success_response:
  assumes "transcribe env cfg MODEL_PATH file language task word_ts w = (res, w')"
  shows "res = Inr (Response 200 c) \<longleftrightarrow>
           (\<exists>p body kvs t segments srt wts.
              snd (last (attempts w')) = Exited p \<and> returncode p = 0 \<and>
              files w' (out_prefix_of env @ ''.json'') = Some (File body) \<and>
              json_load env body = Some (JObj kvs) \<and>
              field_or kvs ''text'' (JStr []) = JStr t \<and>
              segment_entries (field_or kvs ''segments'' (JArr [])) = Some segments \<and>
              subtitles_of (files w') (out_prefix_of env) = Some srt \<and>
              word_timestamps_of env word_ts (files w') (out_prefix_of env) = Some wts \<and>
              c = JObj [(''language'', field_or kvs ''language'' JNull),
                        (''duration'', field_or kvs ''duration'' JNull),
                        (''text'', JStr (strip t)),
                        (''segments'', JArr segments),
                        (''srt'', srt),
                        (''word_timestamps'', wts),
                        (''used_bin'', JStr (hd (fst (last (attempts w')))))] \<and>
              json_compliant c)"
proof -
  let ?json = "exists (files w') (out_prefix_of env @ ''.json'')"
  let ?tr = "transcription_of env word_ts (files w') (out_prefix_of env)
               (hd (fst (last (attempts w'))))"
  have t: "?tr = Some c \<Longrightarrow> ?json" for c
    by (auto simp: transcription_of_Some exists_def)
  have x: "\<not> error_response (Inr (Response 200 c))"
    by (simp add: error_response_def)
  note o = transcribe_outcome [OF assms]
  have "res = Inr (Response 200 c) \<longleftrightarrow>
          (\<exists>p. snd (last (attempts w')) = Exited p \<and> returncode p = 0 \<and> ?tr = Some c)"
  proof (cases "snd (last (attempts w'))")
    case (Exited p)
    show ?thesis
    proof (cases "returncode p \<noteq> 0 \<or> \<not> ?json")
      case True
      with o Exited have "error_response res" by simp
      with x have "res \<noteq> Inr (Response 200 c)" by blast
      moreover from True t have "returncode p = 0 \<Longrightarrow> ?tr \<noteq> Some c" by blast
      ultimately show ?thesis using Exited by auto
    next
      case False
      with o Exited show ?thesis by (cases ?tr) auto
    qed
  next
    case Not_found
    with o have "error_response res" by simp
    with x have "res \<noteq> Inr (Response 200 c)" by blast
    with Not_found show ?thesis by simp
  next
    case (Raised e)
    with o show ?thesis by simp
  qed
  then show ?thesis unfolding transcription_of_Some by blast
qed

theorem success_response_witness:
  "fst (transcribe (example_env good_binary) example_cfg ''/m.bin''
      example_upload None ''transcribe'' False empty_world) = Inr (Response 200 (JObj
          [(''language'', JStr ''en''), (''duration'', JNull),
           (''text'', JStr ''hello there''),
           (''segments'',
            JArr [JObj [(''start'', JInt 0), (''end'', JInt 2), (''text'', JStr ''hello'')],
                  JObj [(''start'', JInt 2), (''end'', JInt 3), (''text'', JStr ''there'')]]),
           (''srt'', JStr ''1''), (''word_timestamps'', JNull),
           (''used_bin'', JStr ''main'')]))
   \<and> fst (transcribe (example_env timestamping_binary) example_cfg ''/m.bin''
      example_upload None ''transcribe'' True empty_world) = Inr (Response 200 (JObj
          [(''language'', JStr ''en''), (''duration'', JNull),
           (''text'', JStr ''hello there''),
           (''segments'',
            JArr [JObj [(''start'', JInt 0), (''end'', JInt 2), (''text'', JStr ''hello'')],
                  JObj [(''start'', JInt 2), (''end'', JInt 3), (''text'', JStr ''there'')]]),
           (''srt'', JNull), (''word_timestamps'', JArr []),
           (''used_bin'', JStr ''main'')]))
   \<and> fst (transcribe (example_env timestamping_binary) example_cfg ''/m.bin''
      example_upload None ''transcribe'' False empty_world) = Inr (Response 200 (JObj
          [(''language'', JStr ''en''), (''duration'', JNull),
           (''text'', JStr ''hello there''),
           (''segments'',
            JArr [JObj [(''start'', JInt 0), (''end'', JInt 2), (''text'', JStr ''hello'')],
                  JObj [(''start'', JInt 2), (''end'', JInt 3), (''text'', JStr ''there'')]]),
           (''srt'', JNull), (''word_timestamps'', JNull),
           (''used_bin'', JStr ''main'')]))
   \<and> files (snd (transcribe (example_env timestamping_binary) example_cfg ''/m.bin''
      example_upload None ''transcribe'' False empty_world)) ''/tmp/tmpb2/out.wts.json'' = Some (File ''[]'')"
proof -
  have d: "json_load (example_env b) ''doc'' =
             Some (JObj [(''language'', JStr ''en''),
               (''text'', JStr '' hello there ''),
               (''segments'',
                JArr [JObj [(''start'', JInt 0), (''end'', JInt 2), (''text'', JStr '' hello'')],
                      JObj [(''start'', JInt 2), (''end'', JInt 3), (''text'', JStr ''there '')]])])"
    for b
    by (simp add: example_env_sel example_json_load_def example_document_def)
  have e: "json_load (example_env b) ''[]'' = Some (JArr [])" for b
    by (simp add: example_env_sel example_json_load_def)
  note f = field_or_def segment_entries_def segment_entry_of_def example_strips
  have 1: "fst (transcribe (example_env good_binary) example_cfg ''/m.bin''
      example_upload None ''transcribe'' False empty_world) = Inr (Response 200 (JObj
          [(''language'', JStr ''en''), (''duration'', JNull),
           (''text'', JStr ''hello there''),
           (''segments'',
            JArr [JObj [(''start'', JInt 0), (''end'', JInt 2), (''text'', JStr ''hello'')],
                  JObj [(''start'', JInt 2), (''end'', JInt 3), (''text'', JStr ''there'')]]),
           (''srt'', JStr ''1''), (''word_timestamps'', JNull),
           (''used_bin'', JStr ''main'')]))"
    unfolding success_response [OF surjective_pairing] example_paths
    apply (simp add: good_run quiet_sel d)
    apply (simp add: f subtitles_of_def word_timestamps_of_def)
    done
  have 2: "fst (transcribe (example_env timestamping_binary) example_cfg ''/m.bin''
      example_upload None ''transcribe'' True empty_world) = Inr (Response 200 (JObj
          [(''language'', JStr ''en''), (''duration'', JNull),
           (''text'', JStr ''hello there''),
           (''segments'',
            JArr [JObj [(''start'', JInt 0), (''end'', JInt 2), (''text'', JStr ''hello'')],
                  JObj [(''start'', JInt 2), (''end'', JInt 3), (''text'', JStr ''there'')]]),
           (''srt'', JNull), (''word_timestamps'', JArr []),
           (''used_bin'', JStr ''main'')]))"
    unfolding success_response [OF surjective_pairing] example_paths
    apply (simp add: timestamping_run quiet_sel d)
    apply (simp add: f subtitles_of_def word_timestamps_of_def e)
    done
  have 3: "fst (transcribe (example_env timestamping_binary) example_cfg ''/m.bin''
      example_upload None ''transcribe'' False empty_world) = Inr (Response 200 (JObj
          [(''language'', JStr ''en''), (''duration'', JNull),
           (''text'', JStr ''hello there''),
           (''segments'',
            JArr [JObj [(''start'', JInt 0), (''end'', JInt 2), (''text'', JStr ''hello'')],
                  JObj [(''start'', JInt 2), (''end'', JInt 3), (''text'', JStr ''there'')]]),
           (''srt'', JNull), (''word_timestamps'', JNull),
           (''used_bin'', JStr ''main'')]))"
    unfolding success_response [OF surjective_pairing] example_paths
    apply (simp add: unrequested_run quiet_sel d)
    apply (simp add: f subtitles_of_def word_timestamps_of_def)
    done
  have 4: "files (snd (transcribe (example_env timestamping_binary) example_cfg ''/m.bin''
      example_upload None ''transcribe'' False empty_world)) ''/tmp/tmpb2/out.wts.json'' = Some (File ''[]'')"
    by (simp add: unrequested_run)
  from 1 2 3 4 show ?thesis by (intro conjI)
qed

section \<open>The routes of the application\<close>

lemma registered_append: "registered (a @ b) m path = registered a m path @ registered b m path"
  by (simp add: registered_def)

lemma registered_FastAPI:
  "registered FastAPI m path =
     (if m = GET \<or> m = HEAD then
        (if path = ''/openapi.json'' then [Builtin ''openapi'']
         else if path = ''/docs'' then [Builtin ''swagger_ui_html'']
         else if path = ''/docs/oauth2-redirect'' then [Builtin ''swagger_ui_redirect'']
         else if path = ''/redoc'' then [Builtin ''redoc_html'']
         else [])
      else [])"
  by (simp add: registered_def FastAPI_def)

text \<open>
  C1, as amended: the application has six routes. Four are the framework's own and
  answer GET and HEAD: the OpenAPI document, the two pages of the interactive
  documentation and the ReDoc page. The program registers two: GET \<open>/healthz\<close>, whose
  function returns the configuration, and POST \<open>/transcribe\<close>, the upload endpoint. For
  every method and path, the functions registered are those of the framework followed
  by these two where method and path are theirs.
\<close>

theorem api_routes:
  "api = FastAPI @ [({GET}, ''/healthz'', Dict_endpoint healthz),
                    ({POST}, ''/transcribe'', Upload_endpoint transcribe)] \<and>
   length api = 6 \<and>
   registered api m path =
     registered FastAPI m path
     @ (if m = GET \<and> path = ''/healthz'' then [Dict_endpoint healthz] else [])
     @ (if m = POST \<and> path = ''/transcribe'' then [Upload_endpoint transcribe] else []) \<and>
   registered FastAPI m path =
     (if m = GET \<or> m = HEAD then
        (if path = ''/openapi.json'' then [Builtin ''openapi'']
         else if path = ''/docs'' then [Builtin ''swagger_ui_html'']
         else if path = ''/docs/oauth2-redirect'' then [Builtin ''swagger_ui_redirect'']
         else if path = ''/redoc'' then [Builtin ''redoc_html'']
         else [])
      else []) \<and>
   healthz cfg MODEL_PATH =
     JObj [(''ok'', JBool True),
           (''model'', JStr (MODEL_ARG cfg)),
           (''model_path'', JStr MODEL_PATH),
           (''threads'', JInt (THREADS cfg)),
           (''beam_size'', JInt (BEAM_SIZE cfg)),
           (''bin'', JStr (WHISPER_BIN cfg))]"
proof -
  have a: "api = FastAPI @ [({GET}, ''/healthz'', Dict_endpoint healthz),
                            ({POST}, ''/transcribe'', Upload_endpoint transcribe)]"
    by (simp add: api_def add_api_route_def)
  have l: "length api = 6"
    unfolding a by (simp add: FastAPI_def)
  have r: "registered api m path =
     registered FastAPI m path
     @ (if m = GET \<and> path = ''/healthz'' then [Dict_endpoint healthz] else [])
     @ (if m = POST \<and> path = ''/transcribe'' then [Upload_endpoint transcribe] else [])"
    unfolding a registered_append by (simp add: registered_def)
  from a l r registered_FastAPI [of m path] show ?thesis
    by (simp only: healthz_def simp_thms)
qed

theorem api_routes_witness:
  "registered api POST ''/transcribe'' = [Upload_endpoint transcribe]
   \<and> registered api GET ''/healthz'' = [Dict_endpoint healthz]
   \<and> registered api GET ''/transcribe'' = []
   \<and> registered api POST ''/healthz'' = []
   \<and> registered api GET ''/docs'' = [Builtin ''swagger_ui_html'']
   \<and> registered api DELETE ''/transcribe'' = []"
proof -
  have 1: "registered api POST ''/transcribe'' = [Upload_endpoint transcribe]"
    using api_routes [of POST "''/transcribe''"] by simp
  have 2: "registered api GET ''/healthz'' = [Dict_endpoint healthz]"
    using api_routes [of GET "''/healthz''"] by simp
  have 3: "registered api GET ''/transcribe'' = []"
    using api_routes [of GET "''/transcribe''"] by simp
  have 4: "registered api POST ''/healthz'' = []"
    using api_routes [of POST "''/healthz''"] by simp
  have 5: "registered api GET ''/docs'' = [Builtin ''swagger_ui_html'']"
    using api_routes [of GET "''/docs''"] by simp
  have 6: "registered api DELETE ''/transcribe'' = []"
    using api_routes [of DELETE "''/transcribe''"] by simp
  from 1 2 3 4 5 6 show ?thesis by (intro conjI)
qed

text \<open>
  C1 as stated fails: the upload endpoint is not the only route. GET \<open>/healthz\<close> is
  registered by the program itself, with a function that is not the upload endpoint
  and returns the configuration; and the framework's documentation page is registered
  as well.
\<close>

theorem single_endpoint_counterexample:
  "registered api GET ''/healthz'' = [Dict_endpoint healthz]
   \<and> Dict_endpoint healthz \<noteq> Upload_endpoint transcribe
   \<and> healthz example_cfg ''/m.bin'' =
       JObj [(''ok'', JBool True), (''model'', JStr ''base.en''),
             (''model_path'', JStr ''/m.bin''), (''threads'', JInt 4),
             (''beam_size'', JInt 5), (''bin'', JStr ''main'')]
   \<and> registered api GET ''/docs'' = [Builtin ''swagger_ui_html'']
   \<and> length api = 6"
  by (simp add: registered_def api_def add_api_route_def FastAPI_def healthz_def example_cfg_def)

section \<open>Model path resolution\<close>

lemma ggml_name: "map_of GGML_MAP a = Some f \<Longrightarrow> f = ''ggml-'' @ a @ ''.bin''"
  by (auto simp: GGML_MAP_def split: if_splits)

lemma ggml_no_sep: "map_of GGML_MAP a = Some f \<Longrightarrow> CHR ''/'' \<notin> set a"
  by (auto simp: GGML_MAP_def split: if_splits)

lemma ggml_nonempty: "map_of GGML_MAP a = Some f \<Longrightarrow> f \<noteq> []"
  by (drule ggml_name) simp

lemma makedirs_Inr:
  "makedirs d w = Inr w1 \<Longrightarrow>
     w1 = w\<lparr>files := (files w)(d \<mapsto> Dir)\<rparr> \<and> d \<noteq> [] \<and> (\<forall>c. files w d \<noteq> Some (File c))"
  by (auto simp: makedirs_def split: if_splits option.splits node.splits)

text \<open>What \<open>resolve_model_path\<close> does for an alias of the table, case by case.\<close>

lemma resolve_alias:
  assumes "map_of GGML_MAP (MODEL_ARG cfg) = Some fname"
  shows "resolve_model_path env cfg w =
     (let path = path_join (MODELS_DIR cfg) fname
      in if exists (files w) path then (Inr path, w)
         else (case makedirs (MODELS_DIR cfg) w of
                 Inl e \<Rightarrow> (Inl e, w)
               | Inr w1 \<Rightarrow>
                   (case urlopen env (model_url fname) of
                      None \<Rightarrow> (Inl (URLError (model_url fname)),
                                w1\<lparr>opened_urls := opened_urls w @ [model_url fname]\<rparr>)
                    | Some body \<Rightarrow>
                        (Inr path,
                         w1\<lparr>opened_urls := opened_urls w @ [model_url fname],
                            files := (files w1)(path \<mapsto> File body)\<rparr>))))"
  using assms ggml_no_sep [OF assms] ggml_nonempty [OF assms]
  by (auto simp: resolve_model_path_def Let_def dest!: makedirs_Inr split: sum.splits option.splits)

lemma example_models:
  "MODEL_ARG example_cfg = ''base.en''" "MODELS_DIR example_cfg = ''/models''"
  "map_of GGML_MAP ''base.en'' = Some ''ggml-base.en.bin''"
  "path_join ''/models'' ''ggml-base.en.bin'' = ''/models/ggml-base.en.bin''"
  "urlopen (example_env b) (model_url ''ggml-base.en.bin'') = Some ''weights''"
  by (simp_all add: example_cfg_def GGML_MAP_def path_join_def suffix_def example_env_def)



lemma first_resolve:
  "resolve_model_path (example_env b) example_cfg empty_world =
     (Inr ''/models/ggml-base.en.bin'', downloaded_world)"
  by (simp add: resolve_alias [of example_cfg "''ggml-base.en.bin''"] example_models
      exists_def empty_world_def makedirs_def downloaded_world_def Let_def)

lemma second_resolve:
  "resolve_model_path (example_env b) example_cfg downloaded_world =
     (Inr ''/models/ggml-base.en.bin'', downloaded_world)"
  by (simp add: resolve_alias [of example_cfg "''ggml-base.en.bin''"] example_models
      exists_def downloaded_world_def Let_def)

text \<open>
  C5: for an alias of the table, a call that finds the weights file under the models
  directory returns its path and changes nothing. A URL is opened only when the file
  is missing, and then it is the one URL of that file. Whenever the call returns, it
  returns that path, the file exists afterwards, and a second call returns the same
  path and changes nothing. When the file is missing, the models directory can be made
  and the download delivers a body, the call returns the path and the file holds the
  body.
\<close>

theorem one_time_download:
  assumes "map_of GGML_MAP (MODEL_ARG cfg) = Some fname"
    and "resolve_model_path env cfg w = (res, w')"
  shows "(exists (files w) (path_join (MODELS_DIR cfg) fname) \<longrightarrow>
            res = Inr (path_join (MODELS_DIR cfg) fname) \<and> w' = w) \<and>
         (opened_urls w' \<noteq> opened_urls w \<longrightarrow>
            \<not> exists (files w) (path_join (MODELS_DIR cfg) fname) \<and>
            opened_urls w' = opened_urls w @ [model_url fname]) \<and>
         (\<forall>p. res = Inr p \<longrightarrow>
            p = path_join (MODELS_DIR cfg) fname \<and>
            exists (files w') (path_join (MODELS_DIR cfg) fname) \<and>
            resolve_model_path env cfg w' = (Inr (path_join (MODELS_DIR cfg) fname), w')) \<and>
         (\<forall>w1 body.
            \<not> exists (files w) (path_join (MODELS_DIR cfg) fname) \<and>
            makedirs (MODELS_DIR cfg) w = Inr w1 \<and>
            urlopen env (model_url fname) = Some body \<longrightarrow>
            res = Inr (path_join (MODELS_DIR cfg) fname) \<and>
            files w' = (files w)(MODELS_DIR cfg \<mapsto> Dir, path_join (MODELS_DIR cfg) fname \<mapsto> File body) \<and>
            opened_urls w' = opened_urls w @ [model_url fname])"
proof -
  let ?path = "path_join (MODELS_DIR cfg) fname"
  note r = assms(2) [unfolded resolve_alias [OF assms(1)] Let_def]
  have again: "resolve_model_path env cfg w' = (Inr ?path, w')" if "exists (files w') ?path"
    using that by (simp add: resolve_alias [OF assms(1)])
  show ?thesis
  proof (cases "exists (files w) ?path")
    case True
    with r have "res = Inr ?path" "w' = w" by simp_all
    with True again show ?thesis by simp
  next
    case False
    show ?thesis
    proof (cases "makedirs (MODELS_DIR cfg) w")
      case (Inl e)
      with r False show ?thesis by auto
    next
      case (Inr w1)
      note w1 = makedirs_Inr [OF Inr]
      show ?thesis
      proof (cases "urlopen env (model_url fname)")
        case None
        with r False Inr show ?thesis by auto
      next
        case (Some body)
        with r False Inr have res: "res = Inr ?path"
          and w': "w' = w1\<lparr>opened_urls := opened_urls w @ [model_url fname],
                            files := (files w1)(?path \<mapsto> File body)\<rparr>"
          by simp_all
        from w' have e: "exists (files w') ?path" by (simp add: exists_def)
        from w' w1 have f: "files w' = (files w)(MODELS_DIR cfg \<mapsto> Dir, ?path \<mapsto> File body)"
          and u: "opened_urls w' = opened_urls w @ [model_url fname]"
          by simp_all
        from res e f u False Inr Some again [OF e] show ?thesis by simp
      qed
    qed
  qed
qed


theorem one_time_download_witness:
  "resolve_model_path (example_env no_binary) example_cfg empty_world =
     (Inr ''/models/ggml-base.en.bin'', downloaded_world)
   \<and> opened_urls downloaded_world = opened_urls empty_world @ [model_url ''ggml-base.en.bin'']
   \<and> exists (files downloaded_world) ''/models/ggml-base.en.bin''
   \<and> resolve_model_path (example_env no_binary) example_cfg downloaded_world =
     (Inr ''/models/ggml-base.en.bin'', downloaded_world)"
proof -
  have m: "map_of GGML_MAP (MODEL_ARG example_cfg) = Some ''ggml-base.en.bin''"
    by (simp add: example_models)
  have p: "path_join (MODELS_DIR example_cfg) ''ggml-base.en.bin'' = ''/models/ggml-base.en.bin''"
    by (simp add: example_models)
  have n: "opened_urls downloaded_world \<noteq> opened_urls empty_world"
    by (simp add: downloaded_world_def empty_world_def)
  note t = one_time_download [OF m first_resolve [of no_binary], unfolded p]
  from t have 1: "opened_urls downloaded_world \<noteq> opened_urls empty_world \<longrightarrow>
            \<not> exists (files empty_world) ''/models/ggml-base.en.bin'' \<and>
            opened_urls downloaded_world = opened_urls empty_world @ [model_url ''ggml-base.en.bin'']"
    by (elim conjE)
  from t have 2: "\<forall>p. Inr ''/models/ggml-base.en.bin'' = (Inr p :: py_error + string) \<longrightarrow>
            p = ''/models/ggml-base.en.bin'' \<and>
            exists (files downloaded_world) ''/models/ggml-base.en.bin'' \<and>
            resolve_model_path (example_env no_binary) example_cfg downloaded_world =
              (Inr ''/models/ggml-base.en.bin'', downloaded_world)"
    by (elim conjE)
  from 1 n have a: "opened_urls downloaded_world = opened_urls empty_world @ [model_url ''ggml-base.en.bin'']"
    by (elim impE conjE)
  from 2 have b: "exists (files downloaded_world) ''/models/ggml-base.en.bin'' \<and>
            resolve_model_path (example_env no_binary) example_cfg downloaded_world =
              (Inr ''/models/ggml-base.en.bin'', downloaded_world)"
    by blast
  from first_resolve [of no_binary] a b show ?thesis by (intro conjI) (elim conjE, assumption)+
qed

text \<open>
  C6: for an alias of the table, the weights-file name is \<open>ggml-\<close>, the alias and
  \<open>.bin\<close>; whenever the call returns, it returns that name joined to the models
  directory, and it does return when the file is there. A name without a path separator
  that is not in the table raises the \<open>ValueError\<close> naming it. A value with a path
  separator is a file path: it raises \<open>FileNotFoundError\<close> when nothing exists there and
  is returned as it is otherwise.
\<close>

theorem model_alias_resolution:
  "(\<forall>fname. map_of GGML_MAP (MODEL_ARG cfg) = Some fname \<longrightarrow>
      fname = ''ggml-'' @ MODEL_ARG cfg @ ''.bin'' \<and>
      (\<forall>p. fst (resolve_model_path env cfg w) = Inr p \<longrightarrow>
           p = path_join (MODELS_DIR cfg) fname) \<and>
      (exists (files w) (path_join (MODELS_DIR cfg) fname) \<longrightarrow>
         resolve_model_path env cfg w = (Inr (path_join (MODELS_DIR cfg) fname), w))) \<and>
   (CHR ''/'' \<notin> set (MODEL_ARG cfg) \<and> map_of GGML_MAP (MODEL_ARG cfg) = None \<longrightarrow>
      resolve_model_path env cfg w =
        (Inl (ValueError (''Unknown model alias: '' @ MODEL_ARG cfg)), w)) \<and>
   (CHR ''/'' \<in> set (MODEL_ARG cfg) \<longrightarrow>
      (\<not> exists (files w) (MODEL_ARG cfg) \<longrightarrow>
         resolve_model_path env cfg w =
           (Inl (FileNotFoundError (''Model not found at '' @ MODEL_ARG cfg)), w)) \<and>
      (exists (files w) (MODEL_ARG cfg) \<longrightarrow>
         resolve_model_path env cfg w = (Inr (MODEL_ARG cfg), w)))"
proof (intro conjI allI impI)
  fix fname assume m: "map_of GGML_MAP (MODEL_ARG cfg) = Some fname"
  show "fname = ''ggml-'' @ MODEL_ARG cfg @ ''.bin''"
    using m by (rule ggml_name)
  show "resolve_model_path env cfg w = (Inr (path_join (MODELS_DIR cfg) fname), w)"
    if "exists (files w) (path_join (MODELS_DIR cfg) fname)"
    using that by (simp add: resolve_alias [OF m])
  show "p = path_join (MODELS_DIR cfg) fname"
    if "fst (resolve_model_path env cfg w) = Inr p" for p
    using that
    by (auto simp: resolve_alias [OF m] Let_def split: if_splits sum.splits option.splits)
next
  assume "CHR ''/'' \<notin> set (MODEL_ARG cfg) \<and> map_of GGML_MAP (MODEL_ARG cfg) = None"
  then show "resolve_model_path env cfg w =
        (Inl (ValueError (''Unknown model alias: '' @ MODEL_ARG cfg)), w)"
    by (simp add: resolve_model_path_def)
next
  assume "CHR ''/'' \<in> set (MODEL_ARG cfg)"
  then show "resolve_model_path env cfg w =
           (Inl (FileNotFoundError (''Model not found at '' @ MODEL_ARG cfg)), w)"
    if "\<not> exists (files w) (MODEL_ARG cfg)"
    using that by (simp add: resolve_model_path_def)
next
  assume "CHR ''/'' \<in> set (MODEL_ARG cfg)"
  then show "resolve_model_path env cfg w = (Inr (MODEL_ARG cfg), w)"
    if "exists (files w) (MODEL_ARG cfg)"
    using that by (simp add: resolve_model_path_def)
qed

theorem model_alias_resolution_witness:
  "resolve_model_path (example_env no_binary) example_cfg downloaded_world =
     (Inr (path_join (MODELS_DIR example_cfg) ''ggml-base.en.bin''), downloaded_world)
   \<and> ''ggml-base.en.bin'' = ''ggml-'' @ MODEL_ARG example_cfg @ ''.bin''
   \<and> resolve_model_path (example_env no_binary) (example_cfg\<lparr>MODEL_ARG := ''huge''\<rparr>) empty_world =
     (Inl (ValueError (''Unknown model alias: '' @ ''huge'')), empty_world)
   \<and> resolve_model_path (example_env no_binary) (example_cfg\<lparr>MODEL_ARG := ''/opt/m.bin''\<rparr>) empty_world =
     (Inl (FileNotFoundError (''Model not found at '' @ ''/opt/m.bin'')), empty_world)
   \<and> resolve_model_path (example_env no_binary) (example_cfg\<lparr>MODEL_ARG := ''/models''\<rparr>) downloaded_world =
     (Inr ''/models'', downloaded_world)"
proof -
  let ?env = "example_env no_binary"
  have m: "map_of GGML_MAP (MODEL_ARG example_cfg) = Some ''ggml-base.en.bin''"
    by (simp add: example_models)
  have e: "exists (files downloaded_world) (path_join (MODELS_DIR example_cfg) ''ggml-base.en.bin'')"
    by (simp add: example_models downloaded_world_def exists_def)
  from model_alias_resolution [of example_cfg ?env downloaded_world] m e
  have 1: "resolve_model_path ?env example_cfg downloaded_world =
     (Inr (path_join (MODELS_DIR example_cfg) ''ggml-base.en.bin''), downloaded_world)"
    and 2: "''ggml-base.en.bin'' = ''ggml-'' @ MODEL_ARG example_cfg @ ''.bin''"
    by blast+
  have h: "CHR ''/'' \<notin> set (MODEL_ARG (example_cfg\<lparr>MODEL_ARG := ''huge''\<rparr>)) \<and>
           map_of GGML_MAP (MODEL_ARG (example_cfg\<lparr>MODEL_ARG := ''huge''\<rparr>)) = None"
    by (simp add: GGML_MAP_def)
  from model_alias_resolution [of "example_cfg\<lparr>MODEL_ARG := ''huge''\<rparr>" ?env empty_world] h
  have "resolve_model_path ?env (example_cfg\<lparr>MODEL_ARG := ''huge''\<rparr>) empty_world =
     (Inl (ValueError (''Unknown model alias: '' @ MODEL_ARG (example_cfg\<lparr>MODEL_ARG := ''huge''\<rparr>))),
      empty_world)"
    by blast
  then have 3: "resolve_model_path ?env (example_cfg\<lparr>MODEL_ARG := ''huge''\<rparr>) empty_world =
     (Inl (ValueError (''Unknown model alias: '' @ ''huge'')), empty_world)"
    by simp
  have s: "CHR ''/'' \<in> set (MODEL_ARG (example_cfg\<lparr>MODEL_ARG := ''/opt/m.bin''\<rparr>))"
    "\<not> exists (files empty_world) (MODEL_ARG (example_cfg\<lparr>MODEL_ARG := ''/opt/m.bin''\<rparr>))"
    by (simp_all add: empty_world_def exists_def)
  from model_alias_resolution [of "example_cfg\<lparr>MODEL_ARG := ''/opt/m.bin''\<rparr>" ?env empty_world] s
  have "resolve_model_path ?env (example_cfg\<lparr>MODEL_ARG := ''/opt/m.bin''\<rparr>) empty_world =
     (Inl (FileNotFoundError (''Model not found at '' @ MODEL_ARG (example_cfg\<lparr>MODEL_ARG := ''/opt/m.bin''\<rparr>))),
      empty_world)"
    by blast
  then have 4: "resolve_model_path ?env (example_cfg\<lparr>MODEL_ARG := ''/opt/m.bin''\<rparr>) empty_world =
     (Inl (FileNotFoundError (''Model not found at '' @ ''/opt/m.bin'')), empty_world)"
    by simp
  have d: "CHR ''/'' \<in> set (MODEL_ARG (example_cfg\<lparr>MODEL_ARG := ''/models''\<rparr>))"
    "exists (files downloaded_world) (MODEL_ARG (example_cfg\<lparr>MODEL_ARG := ''/models''\<rparr>))"
    by (simp_all add: downloaded_world_def exists_def)
  from model_alias_resolution [of "example_cfg\<lparr>MODEL_ARG := ''/models''\<rparr>" ?env downloaded_world] d
  have "resolve_model_path ?env (example_cfg\<lparr>MODEL_ARG := ''/models''\<rparr>) downloaded_world =
     (Inr (MODEL_ARG (example_cfg\<lparr>MODEL_ARG := ''/models''\<rparr>)), downloaded_world)"
    by blast
  then have 5: "resolve_model_path ?env (example_cfg\<lparr>MODEL_ARG := ''/models''\<rparr>) downloaded_world =
     (Inr ''/models'', downloaded_world)"
    by simp
  from 1 2 3 4 5 show ?thesis by (intro conjI)
qed

section \<open>The suffix of the temporary file\<close>

lemma rfind_aux_notin: "c \<notin> set xs \<Longrightarrow> rfind_aux xs c i best = best"
  by (induction xs arbitrary: i) auto

lemma rfind_aux_last: "c \<notin> set b \<Longrightarrow> rfind_aux (a @ c # b) c i best = i + int (length a)"
  by (induction a arbitrary: i best) (auto simp: rfind_aux_notin)

lemma rfind_notin: "c \<notin> set p \<Longrightarrow> rfind p c = - 1"
  by (simp add: rfind_def rfind_aux_notin)

lemma rfind_last: "c \<notin> set b \<Longrightarrow> rfind (a @ c # b) c = int (length a)"
  by (simp add: rfind_def rfind_aux_last)

lemma slice_one: "0 \<le> i \<Longrightarrow> nat i < length p \<Longrightarrow> slice p i (i + 1) = [p ! nat i]"
  by (simp add: slice_def norm_index_def Let_def min_def nat_add_distrib take_Suc_conv_app_nth
      Cons_nth_drop_Suc [symmetric])

lemma slice_to_nat: "0 \<le> d \<Longrightarrow> nat d \<le> length p \<Longrightarrow> slice_to p d = take (nat d) p"
  by (simp add: slice_to_def norm_index_def)

lemma slice_from_nat: "0 \<le> d \<Longrightarrow> nat d \<le> length p \<Longrightarrow> slice_from p d = drop (nat d) p"
  by (simp add: slice_from_def norm_index_def)

lemma splitext_loop_eq:
  "0 \<le> i \<Longrightarrow> i \<le> d \<Longrightarrow> nat d \<le> length p \<Longrightarrow>
     splitext_loop p i d =
       (if \<forall>j. nat i \<le> j \<and> j < nat d \<longrightarrow> p ! j = CHR ''.'' then (p, [])
        else (take (nat d) p, drop (nat d) p))"
proof (induction p i d rule: splitext_loop.induct)
  case (1 p i d)
  show ?case
  proof (cases "i < d")
    case False
    then have "splitext_loop p i d = (p, [])"
      by (subst splitext_loop.simps) simp
    moreover from False have "\<forall>j. nat i \<le> j \<and> j < nat d \<longrightarrow> p ! j = CHR ''.''"
      by auto
    ultimately show ?thesis by simp
  next
    case True
    with "1.prems" have s: "slice p i (i + 1) = [p ! nat i]"
      by (intro slice_one) auto
    show ?thesis
    proof (cases "p ! nat i = CHR ''.''")
      case False
      with True s "1.prems" have "splitext_loop p i d = (take (nat d) p, drop (nat d) p)"
        by (simp add: splitext_loop.simps [of p i d] slice_to_nat slice_from_nat)
      moreover from False True "1.prems" have "\<not> (\<forall>j. nat i \<le> j \<and> j < nat d \<longrightarrow> p ! j = CHR ''.'')"
        by (intro notI) (auto dest!: spec [of _ "nat i"])
      ultimately show ?thesis by (simp only: if_False)
    next
      case dot: True
      with True s have "splitext_loop p i d = splitext_loop p (i + 1) d"
        by (simp add: splitext_loop.simps [of p i d])
      also have "\<dots> = (if \<forall>j. nat (i + 1) \<le> j \<and> j < nat d \<longrightarrow> p ! j = CHR ''.'' then (p, [])
                        else (take (nat d) p, drop (nat d) p))"
        using True s dot "1.prems" by (intro "1.IH") auto
      also have "(\<forall>j. nat (i + 1) \<le> j \<and> j < nat d \<longrightarrow> p ! j = CHR ''.'') \<longleftrightarrow>
                 (\<forall>j. nat i \<le> j \<and> j < nat d \<longrightarrow> p ! j = CHR ''.'')"
      proof -
        have "j = nat i \<or> nat (i + 1) \<le> j" if "nat i \<le> j" for j
          using that "1.prems"(1) by auto
        with dot show ?thesis using "1.prems"(1) by (metis nat_le_iff nat_mono le_add1 add.commute order_trans zle_add1_eq_le zless_add1_eq less_le)
      qed
      finally show ?thesis .
    qed
  qed
qed

lemma basename_split:
  obtains d where "p = d @ basename_of p" "CHR ''/'' \<notin> set (basename_of p)"
    "d = [] \<or> (\<exists>d'. d = d' @ ''/'')"
proof -
  let ?P = "\<lambda>c. c \<noteq> CHR ''/''"
  let ?d = "rev (dropWhile ?P (rev p))"
  have "rev (dropWhile ?P xs) @ rev (takeWhile ?P xs) = rev xs" for xs :: string
    by (metis rev_append takeWhile_dropWhile_id)
  from this [of "rev p"] have 1: "p = ?d @ basename_of p" by (simp add: basename_of_def)
  have 2: "CHR ''/'' \<notin> set (basename_of p)"
    by (auto simp: basename_of_def dest: set_takeWhileD)
  have 3: "?d = [] \<or> (\<exists>d'. ?d = d' @ ''/'')"
  proof (cases "dropWhile ?P (rev p)")
    case Nil
    then show ?thesis by simp
  next
    case (Cons x xs)
    then have "dropWhile ?P (rev p) \<noteq> []" by simp
    from hd_dropWhile [OF this] Cons have "x = CHR ''/''" by simp
    with Cons show ?thesis by simp
  qed
  from 1 2 3 show ?thesis by (rule that)
qed

lemma splitext_extension: "snd (splitext p) = extension_of p"
proof -
  obtain d where p: "p = d @ basename_of p" and nosep: "CHR ''/'' \<notin> set (basename_of p)"
    and d: "d = [] \<or> (\<exists>d'. d = d' @ ''/'')"
    by (rule basename_split)
  let ?base = "basename_of p"
  have sep: "rfind p (CHR ''/'') = int (length d) - 1"
  proof (cases "d = []")
    case True
    with p nosep have "CHR ''/'' \<notin> set p" by simp
    with True show ?thesis by (simp add: rfind_notin)
  next
    case False
    with d obtain d' where d': "d = d' @ ''/''" by blast
    with p have "p = d' @ CHR ''/'' # ?base" by simp
    then have "rfind p (CHR ''/'') = int (length d')"
      using nosep rfind_last [of "CHR ''/''" ?base d'] by simp
    with d' show ?thesis by simp
  qed
  show ?thesis
  proof (cases "CHR ''.'' \<in> set ?base")
    case nodot: False
    then have "CHR ''.'' \<notin> set (dropWhile (\<lambda>c. c = CHR ''.'') ?base)"
      by (auto dest: set_dropWhileD)
    then have e: "extension_of p = []" by (simp add: extension_of_def)
    have "\<not> rfind p (CHR ''.'') > rfind p (CHR ''/'')"
    proof (cases "CHR ''.'' \<in> set p")
      case False
      then show ?thesis using sep by (simp add: rfind_notin)
    next
      case True
      then obtain a b where ab: "p = a @ CHR ''.'' # b" "CHR ''.'' \<notin> set b"
        by (blast dest: split_list_last)
      then have r: "rfind p (CHR ''.'') = int (length a)"
        using rfind_last [of "CHR ''.''" b a] by simp
      have "length a < length d"
      proof (rule ccontr)
        assume "\<not> length a < length d"
        then have ge: "length d \<le> length a" by simp
        have la: "length a < length p" using ab(1) by simp
        have "p ! length a = CHR ''.''" using ab(1) by simp
        moreover have "p ! length a = ?base ! (length a - length d)"
          using ge p by (metis leD nth_append)
        moreover have "length a - length d < length ?base"
          using la ge p by (metis length_append less_diff_conv2 add.commute)
        ultimately have "CHR ''.'' \<in> set ?base" by (metis nth_mem)
        with nodot show False by simp
      qed
      with r sep show ?thesis by simp
    qed
    then have "splitext p = (p, [])" by (simp add: splitext_def Let_def)
    with e show ?thesis by simp
  next
    case True
    then obtain b1 e where be: "?base = b1 @ CHR ''.'' # e" "CHR ''.'' \<notin> set e"
      by (blast dest: split_list_last)
    with p have pp: "p = (d @ b1) @ CHR ''.'' # e" by simp
    then have dot: "rfind p (CHR ''.'') = int (length d) + int (length b1)"
      using rfind_last [of "CHR ''.''" e "d @ b1"] be(2) by simp
    let ?n = "length d + length b1"
    have lp: "?n < length p" using pp by simp
    have "splitext p = splitext_loop p (int (length d)) (int ?n)"
      using dot sep by (simp add: splitext_def Let_def)
    also have "\<dots> = (if \<forall>j. nat (int (length d)) \<le> j \<and> j < nat (int ?n) \<longrightarrow> p ! j = CHR ''.''
                     then (p, []) else (take (nat (int ?n)) p, drop (nat (int ?n)) p))"
      using lp by (intro splitext_loop_eq) simp_all
    also have "(\<forall>j. nat (int (length d)) \<le> j \<and> j < nat (int ?n) \<longrightarrow> p ! j = CHR ''.'') \<longleftrightarrow>
               (\<forall>c \<in> set b1. c = CHR ''.'')"
    proof
      assume a: "\<forall>j. nat (int (length d)) \<le> j \<and> j < nat (int ?n) \<longrightarrow> p ! j = CHR ''.''"
      show "\<forall>c \<in> set b1. c = CHR ''.''"
      proof
        fix c assume "c \<in> set b1"
        then obtain k where k: "k < length b1" "b1 ! k = c" by (auto simp: in_set_conv_nth)
        from a k(1) have "p ! (length d + k) = CHR ''.''" by simp
        moreover have "p ! (length d + k) = b1 ! k"
          using k(1) pp by (simp add: nth_append)
        ultimately show "c = CHR ''.''" using k(2) by simp
      qed
    next
      assume a: "\<forall>c \<in> set b1. c = CHR ''.''"
      show "\<forall>j. nat (int (length d)) \<le> j \<and> j < nat (int ?n) \<longrightarrow> p ! j = CHR ''.''"
      proof (intro allI impI)
        fix j assume "nat (int (length d)) \<le> j \<and> j < nat (int ?n)"
        then have j: "length d \<le> j" "j < length d + length b1" by linarith+
        then have k: "j - length d < length b1" by linarith
        have "p ! j = b1 ! (j - length d)"
          using pp j k by (simp add: nth_append)
        moreover have "b1 ! (j - length d) \<in> set b1" using k by simp
        ultimately show "p ! j = CHR ''.''" using a by simp
      qed
    qed
    also have "take (nat (int ?n)) p = d @ b1" using pp by simp
    also have "drop (nat (int ?n)) p = CHR ''.'' # e" using pp by simp
    finally have sp: "snd (splitext p) = (if \<forall>c \<in> set b1. c = CHR ''.'' then [] else CHR ''.'' # e)"
      by simp
    have "extension_of p = (if \<forall>c \<in> set b1. c = CHR ''.'' then [] else CHR ''.'' # e)"
    proof (cases "\<forall>c \<in> set b1. c = CHR ''.''")
      case True
      then have "dropWhile (\<lambda>c. c = CHR ''.'') ?base = dropWhile (\<lambda>c. c = CHR ''.'') e"
        by (simp add: be(1))
      moreover have "CHR ''.'' \<notin> set (dropWhile (\<lambda>c. c = CHR ''.'') e)"
        using be(2) by (auto dest: set_dropWhileD)
      ultimately show ?thesis using True by (simp add: extension_of_def)
    next
      case False
      then obtain x where "x \<in> set b1" "x \<noteq> CHR ''.''" by blast
      then have b: "dropWhile (\<lambda>c. c = CHR ''.'') ?base =
                 dropWhile (\<lambda>c. c = CHR ''.'') b1 @ CHR ''.'' # e"
        by (simp add: be(1))
      have "takeWhile (\<lambda>c. c \<noteq> CHR ''.'') (rev e @ CHR ''.'' # rev (dropWhile (\<lambda>c. c = CHR ''.'') b1)) = rev e"
        using be(2) by (auto simp: takeWhile_tail)
      with b False show ?thesis by (simp add: extension_of_def)
    qed
    with sp show ?thesis by simp
  qed
qed

lemma extension_suffix: "suffix (extension_of p) p"
proof (cases "CHR ''.'' \<in> set (dropWhile (\<lambda>c. c = CHR ''.'') (basename_of p))")
  case False
  then show ?thesis by (simp add: extension_of_def)
next
  case True
  let ?b = "dropWhile (\<lambda>c. c = CHR ''.'') (basename_of p)"
  from True obtain x e where xe: "?b = x @ CHR ''.'' # e" "CHR ''.'' \<notin> set e"
    by (blast dest: split_list_last)
  then have "takeWhile (\<lambda>c. c \<noteq> CHR ''.'') (rev ?b) = rev e"
    by (auto simp: takeWhile_tail)
  with True have "extension_of p = CHR ''.'' # e" by (simp add: extension_of_def)
  with xe(1) have "suffix (extension_of p) ?b" by (simp add: suffix_def)
  also have "suffix ?b (basename_of p)" by (rule suffix_dropWhile)
  also have "suffix (basename_of p) p"
    by (rule basename_split [of p]) (metis suffixI)
  finally show ?thesis .
qed

text \<open>
  C9: the suffix of the temporary file is \<open>.wav\<close> when the upload has no filename or
  its filename has no extension, and the filename's extension otherwise. The extension
  of a name (an ending of it) is the part from the last dot of its last path component
  on, leading dots of that component not counted. The temporary file's name ends in
  that suffix, and the upload is stored under it.
\<close>

theorem temp_file_suffix:
  "upload_suffix file =
     (case filename file of
        None \<Rightarrow> ''.wav''
      | Some name \<Rightarrow> if extension_of name = [] then ''.wav'' else extension_of name) \<and>
   (\<forall>name. filename file = Some name \<longrightarrow> suffix (extension_of name) name) \<and>
   tmp_path_of env file = tmp_stem env @ upload_suffix file \<and>
   (tmp_path_of env file \<noteq> mkdtemp env \<longrightarrow>
      files (stage_upload env file w) (tmp_path_of env file) = Some (File (content file)))"
proof (intro conjI allI impI)
  have e: "snd (splitext []) = []"
    using splitext_extension [of "[]"] by (simp add: extension_of_def basename_of_def)
  show "upload_suffix file =
     (case filename file of
        None \<Rightarrow> ''.wav''
      | Some name \<Rightarrow> if extension_of name = [] then ''.wav'' else extension_of name)"
    by (simp add: upload_suffix_def Let_def splitext_extension e split: option.splits)
      (simp add: extension_of_def basename_of_def)
  show "suffix (extension_of name) name" for name
    by (rule extension_suffix)
  show "tmp_path_of env file = tmp_stem env @ upload_suffix file"
    by (simp add: tmp_path_of_def)
  show "files (stage_upload env file w) (tmp_path_of env file) = Some (File (content file))"
    if "tmp_path_of env file \<noteq> mkdtemp env"
    using that by (simp add: stage_upload_def Let_def)
qed

theorem temp_file_suffix_witness:
  "upload_suffix example_upload = ''.mp3''
   \<and> upload_suffix \<lparr>filename = None, content = ''audio''\<rparr> = ''.wav''
   \<and> upload_suffix \<lparr>filename = Some ''recording'', content = ''audio''\<rparr> = ''.wav''
   \<and> upload_suffix \<lparr>filename = Some ''a.b/.hidden'', content = ''audio''\<rparr> = ''.wav''
   \<and> tmp_path_of (example_env no_binary) \<lparr>filename = None, content = ''audio''\<rparr> = ''/tmp/tmpa1.wav''
   \<and> files (stage_upload (example_env no_binary) \<lparr>filename = None, content = ''audio''\<rparr> empty_world)
        ''/tmp/tmpa1.wav'' = Some (File ''audio'')"
proof -
  have x: "extension_of ''talk.mp3'' = ''.mp3''" "extension_of ''recording'' = []"
    "extension_of ''a.b/.hidden'' = []"
    by (simp_all add: extension_of_def basename_of_def)
  let ?none = "\<lparr>filename = None, content = ''audio''\<rparr>"
  let ?env = "example_env no_binary"
  have 1: "upload_suffix example_upload = ''.mp3''"
    using temp_file_suffix [of example_upload] by (simp add: example_upload_def x)
  have 2: "upload_suffix ?none = ''.wav''"
    using temp_file_suffix [of ?none] by simp
  have 3: "upload_suffix \<lparr>filename = Some ''recording'', content = ''audio''\<rparr> = ''.wav''"
    using temp_file_suffix [of "\<lparr>filename = Some ''recording'', content = ''audio''\<rparr>"]
    by (simp add: x)
  have 4: "upload_suffix \<lparr>filename = Some ''a.b/.hidden'', content = ''audio''\<rparr> = ''.wav''"
    using temp_file_suffix [of "\<lparr>filename = Some ''a.b/.hidden'', content = ''audio''\<rparr>"]
    by (simp add: x)
  have 5: "tmp_path_of ?env ?none = ''/tmp/tmpa1.wav''"
    using temp_file_suffix [of ?none ?env] 2 by (simp add: example_env_def)
  have "tmp_path_of ?env ?none \<noteq> mkdtemp ?env"
    unfolding 5 by (simp add: example_env_def)
  with temp_file_suffix [of ?none ?env empty_world]
  have "files (stage_upload ?env ?none empty_world) (tmp_path_of ?env ?none) = Some (File (content ?none))"
    by blast
  then have 6: "files (stage_upload ?env ?none empty_world) ''/tmp/tmpa1.wav'' = Some (File ''audio'')"
    unfolding 5 by simp
  from 1 2 3 4 5 6 show ?thesis by (intro conjI)
qed

end
